theory Spec2Isabelle
  imports Complex_Main "HOL-Library.Sublist"
begin

section \<open>Python values\<close>

text \<open>
  Exceptions are values. Each constructor is one exception class the modelled code raises,
  catches or lets through; the payload is the text \<open>str(e)\<close> gives.
  \<open>ConnectionError\<close> is the builtin class, \<open>RequestsConnectionError\<close> the class
  \<open>requests.ConnectionError\<close>, which does not derive from the builtin; each stands for its
  subclasses too.
\<close>

datatype exn =
    ConnectionError string
  | RequestsConnectionError string
  | HTTPError string
  | JSONDecodeError string
  | KeyError string
  | IndexError string
  | ValueError string
  | FileNotFoundError string
  | NotFittedError string
  | OtherException string

fun str_exn :: "exn \<Rightarrow> string" where
  "str_exn (ConnectionError m) = m"
| "str_exn (RequestsConnectionError m) = m"
| "str_exn (HTTPError m) = m"
| "str_exn (JSONDecodeError m) = m"
| "str_exn (KeyError m) = m"
| "str_exn (IndexError m) = m"
| "str_exn (ValueError m) = m"
| "str_exn (FileNotFoundError m) = m"
| "str_exn (NotFittedError m) = m"
| "str_exn (OtherException m) = m"

text \<open>
  Slices. \<open>xs[:k]\<close> and \<open>xs[s:]\<close> for a Python int: a negative bound counts from the end
  and is clipped at the start of the list.
\<close>

definition py_slice_to :: "int \<Rightarrow> 'a list \<Rightarrow> 'a list" where
  "py_slice_to k xs = (if k < 0 then take (nat (int (length xs) + k)) xs else take (nat k) xs)"

definition py_slice_from :: "int \<Rightarrow> 'a list \<Rightarrow> 'a list" where
  "py_slice_from s xs = (if s < 0 then drop (nat (int (length xs) + s)) xs else drop (nat s) xs)"

text \<open>
  A Python \<open>str\<close> is modelled by its UTF-8 encoding, a byte string. \<open>str.strip()\<close> removes
  the white-space characters at both ends; these are the characters for which
  \<open>str.isspace()\<close> holds: U+0009 to U+000D, U+001C to U+0020, U+0085, U+00A0, U+1680,
  U+2000 to U+200A, U+2028, U+2029, U+202F, U+205F and U+3000, here in their encodings.
  \<open>lstrip\<close> removes leading characters of the given list for as long as there is one.
\<close>

definition WHITESPACE :: "string list" where
  "WHITESPACE =
     map (\<lambda>n. [char_of n]) [0x09, 0x0A, 0x0B, 0x0C, 0x0D, 0x1C, 0x1D, 0x1E, 0x1F, 0x20 :: nat]
     @ [[CHR 0xC2, CHR 0x85], [CHR 0xC2, CHR 0xA0], [CHR 0xE1, CHR 0x9A, CHR 0x80]]
     @ map (\<lambda>n. [CHR 0xE2, CHR 0x80, char_of n])
         [0x80, 0x81, 0x82, 0x83, 0x84, 0x85, 0x86, 0x87, 0x88, 0x89, 0x8A, 0xA8, 0xA9, 0xAF :: nat]
     @ [[CHR 0xE2, CHR 0x81, CHR 0x9F], [CHR 0xE3, CHR 0x80, CHR 0x80]]"

function lstrip :: "string list \<Rightarrow> string \<Rightarrow> string" where
  "lstrip ws s =
     (case find (\<lambda>w. w \<noteq> [] \<and> take (length w) s = w) ws of
        None \<Rightarrow> s
      | Some w \<Rightarrow> lstrip ws (drop (length w) s))"
  by pat_completeness auto
termination
proof (relation "measure (\<lambda>(ws, s). length s)")
  show "wf (measure (\<lambda>(ws, s). length s))" by simp
next
  fix ws :: "string list" and s w :: string
  assume "find (\<lambda>w. w \<noteq> [] \<and> take (length w) s = w) ws = Some w"
  then have "w \<noteq> []" and "take (length w) s = w"
    by (auto simp: find_Some_iff)
  then have "s \<noteq> []" by auto
  with \<open>w \<noteq> []\<close> show "((ws, drop (length w) s), (ws, s)) \<in> measure (\<lambda>(ws, s). length s)"
    by simp
qed

declare lstrip.simps [simp del]

definition strip :: "string \<Rightarrow> string" where
  "strip s = rev (lstrip (map rev WHITESPACE) (rev (lstrip WHITESPACE s)))"

fun py_join :: "string \<Rightarrow> string list \<Rightarrow> string" where
  "py_join sep [] = []"
| "py_join sep [x] = x"
| "py_join sep (x # y # ys) = x @ sep @ py_join sep (y # ys)"

definition startswith :: "string \<Rightarrow> string \<Rightarrow> bool" where
  "startswith s p = (take (length p) s = p)"

definition NL :: string where
  "NL = [CHR 0x0A]"

section \<open>The knowledge base (serving/knowledge\_base.py)\<close>

text \<open>
  The scikit-learn, numpy and builtin functions the store calls are parameters: the
  unfitted vectorizer object, \<open>fit_transform\<close> (which may raise, on an empty vocabulary),
  \<open>transform\<close> of one text (which raises on an unfitted vectorizer), the cosine similarity
  of the query row with one row of the matrix, \<open>np.argsort\<close> and the builtin \<open>round(x, n)\<close>.
  A matrix is the list of its rows, one for each document that was fitted (at least one:
  \<open>fit_transform\<close> raises on a corpus without vocabulary), and \<open>cosine_similarity\<close> of the
  query row with the matrix is the list of the similarities with its rows. A similarity is
  a real number (every finite double is one).
\<close>

record ('v, 'r) library =
  TfidfVectorizer :: "'v"
  fit_transform :: "'v \<Rightarrow> string list \<Rightarrow> exn + ('v \<times> 'r list)"
  transform :: "'v \<Rightarrow> string \<Rightarrow> exn + 'r"
  cosine_similarity :: "'r \<Rightarrow> 'r \<Rightarrow> real"
  argsort :: "real list \<Rightarrow> nat list"
  py_round :: "real \<Rightarrow> nat \<Rightarrow> real"

text \<open>
  What numpy promises of \<open>np.argsort(scores)\<close>: the indices of the array, each once, in
  ascending order of score. The default sort is not stable: the order of indices with equal
  scores is not fixed, and nothing is assumed of it.
\<close>

definition sorts_ascending :: "(real list \<Rightarrow> nat list) \<Rightarrow> real list \<Rightarrow> bool" where
  "sorts_ascending f scores \<longleftrightarrow>
     distinct (f scores) \<and> set (f scores) = {0..<length scores}
     \<and> sorted (map (\<lambda>i. scores ! i) (f scores))"

text \<open>A metadata entry is a dict from strings to strings, in insertion order.\<close>

type_synonym metadata_dict = "(string \<times> string) list"

record ('v, 'r) KnowledgeBase =
  documents :: "string list"
  metadata :: "metadata_dict list"
  vectorizer :: "'v option"
  tfidf_matrix :: "'r list option"

record query_result =
  res_text :: string
  res_score :: real
  res_metadata :: metadata_dict

definition KnowledgeBase_init :: "('v, 'r) KnowledgeBase" where
  "KnowledgeBase_init =
     \<lparr>documents = [], metadata = [], vectorizer = None, tfidf_matrix = None\<rparr>"

definition add ::
  "('v, 'r) KnowledgeBase \<Rightarrow> string \<Rightarrow> string \<Rightarrow> string \<Rightarrow> ('v, 'r) KnowledgeBase" where
  "add kb text category source =
     kb\<lparr>documents := documents kb @ [text],
        metadata := metadata kb @ [[(''category'', category), (''source'', source)]]\<rparr>"

text \<open>
  \<open>build_index\<close> stores the new vectorizer before fitting it: when \<open>fit_transform\<close>
  raises, the exception leaves the store with the unfitted vectorizer and the old matrix.
\<close>

definition build_index ::
  "('v, 'r) library \<Rightarrow> ('v, 'r) KnowledgeBase \<Rightarrow> exn option \<times> ('v, 'r) KnowledgeBase" where
  "build_index L kb =
     (case fit_transform L (TfidfVectorizer L) (documents kb) of
        Inl e \<Rightarrow> (Some e, kb\<lparr>vectorizer := Some (TfidfVectorizer L)\<rparr>)
      | Inr (v, m) \<Rightarrow> (None, kb\<lparr>vectorizer := Some v, tfidf_matrix := Some m\<rparr>))"

text \<open>The literal \<open>0.02\<close> is the double nearest to it, \<open>5764607523034235 / 2^58\<close>.\<close>

definition RELEVANCE_FLOOR :: real where
  "RELEVANCE_FLOOR = 5764607523034235 / 288230376151711744"

text \<open>The loop of \<open>query\<close> over \<open>top_idx\<close>; an index past a list raises.\<close>

fun collect ::
  "('v, 'r) library \<Rightarrow> ('v, 'r) KnowledgeBase \<Rightarrow> real list \<Rightarrow> nat list \<Rightarrow> exn + query_result list"
where
  "collect L kb scores [] = Inr []"
| "collect L kb scores (i # rest) =
     (if \<not> i < length scores then Inl (IndexError ''index out of bounds'')
      else if RELEVANCE_FLOOR < scores ! i then
        (if \<not> i < length (documents kb) then Inl (IndexError ''list index out of range'')
         else if \<not> i < length (metadata kb) then Inl (IndexError ''list index out of range'')
         else (case collect L kb scores rest of
                 Inl e \<Rightarrow> Inl e
               | Inr results \<Rightarrow>
                   Inr (\<lparr>res_text = documents kb ! i,
                         res_score = py_round L (scores ! i) 4,
                         res_metadata = metadata kb ! i\<rparr> # results)))
      else collect L kb scores rest)"

definition query ::
  "('v, 'r) library \<Rightarrow> ('v, 'r) KnowledgeBase \<Rightarrow> string \<Rightarrow> int \<Rightarrow> exn + query_result list" where
  "query L kb question top_k =
     (case vectorizer kb of
        None \<Rightarrow> Inr []
      | Some v \<Rightarrow>
          (case tfidf_matrix kb of
             None \<Rightarrow> Inr []
           | Some m \<Rightarrow>
               (case transform L v question of
                  Inl e \<Rightarrow> Inl e
                | Inr q_vec \<Rightarrow>
                    (let scores = map (cosine_similarity L q_vec) m;
                         top_idx = py_slice_to top_k (rev (argsort L scores))
                     in collect L kb scores top_idx))))"

text \<open>
  The file system is a map from path to content. \<open>joblib.dump\<close> writes an object that
  \<open>joblib.load\<close> gives back; \<open>json.dump\<close> writes the two lists that \<open>json.load\<close> gives back.
  A missing file raises \<open>FileNotFoundError\<close>; a file of another kind does not unpickle
  (or has no such keys).
\<close>

datatype ('v, 'r) file_content =
    JoblibVectorizer "'v option"
  | JoblibMatrix "'r list option"
  | JsonDocuments "string list" "metadata_dict list"

type_synonym ('v, 'r) filesystem = "string \<Rightarrow> ('v, 'r) file_content option"

definition path_join :: "string \<Rightarrow> string \<Rightarrow> string" where
  "path_join path name = path @ ''/'' @ name"

definition save ::
  "('v, 'r) KnowledgeBase \<Rightarrow> string \<Rightarrow> ('v, 'r) filesystem \<Rightarrow> ('v, 'r) filesystem" where
  "save kb path fs =
     fs(path_join path ''tfidf_vectorizer.joblib'' \<mapsto> JoblibVectorizer (vectorizer kb),
        path_join path ''tfidf_matrix.joblib'' \<mapsto> JoblibMatrix (tfidf_matrix kb),
        path_join path ''documents.json'' \<mapsto> JsonDocuments (documents kb) (metadata kb))"

definition load :: "string \<Rightarrow> ('v, 'r) filesystem \<Rightarrow> exn + ('v, 'r) KnowledgeBase" where
  "load path fs =
     (case fs (path_join path ''tfidf_vectorizer.joblib'') of
        None \<Rightarrow> Inl (FileNotFoundError (path_join path ''tfidf_vectorizer.joblib''))
      | Some (JoblibVectorizer v) \<Rightarrow>
          (case fs (path_join path ''tfidf_matrix.joblib'') of
             None \<Rightarrow> Inl (FileNotFoundError (path_join path ''tfidf_matrix.joblib''))
           | Some (JoblibMatrix m) \<Rightarrow>
               (case fs (path_join path ''documents.json'') of
                  None \<Rightarrow> Inl (FileNotFoundError (path_join path ''documents.json''))
                | Some (JsonDocuments docs metas) \<Rightarrow>
                    Inr \<lparr>documents = docs, metadata = metas,
                         vectorizer = v, tfidf_matrix = m\<rparr>
                | Some _ \<Rightarrow> Inl (KeyError ''documents''))
           | Some _ \<Rightarrow> Inl (OtherException ''unpickling failed''))
      | Some _ \<Rightarrow> Inl (OtherException ''unpickling failed''))"

section \<open>The language-model client (serving/llm\_client.py)\<close>

text \<open>
  The network is a parameter: \<open>requests.post\<close> is a function from the request to
  what the call does, which is to raise or to return a response object. A response is the
  record of what its methods give: what \<open>raise_for_status()\<close> raises (an \<open>HTTPError\<close> on
  a 4xx or 5xx status), what \<open>json()\<close> returns or raises, the lines \<open>iter_lines()\<close>
  delivers, and the exception that ends the iteration when the transport fails under way.
  A decoded JSON document is seen through the accessors the client applies to it, with the
  types of the wire protocol (texts are strings).
\<close>

record json_value =
  get_response :: "string option"
  get_done :: bool
  message_content :: "exn + string"
  delta_content :: "exn + string option"

record http_response =
  raise_for_status :: "exn option"
  json :: "exn + json_value"
  iter_lines :: "string list"
  iter_lines_error :: "exn option"

datatype http_result = PostRaises exn | PostReturns http_response

text \<open>
  The two request shapes. Local server: url, model, prompt, system, stream,
  options.temperature, options.num\_predict. Hosted API: url, Authorization header, model,
  messages, temperature, max\_tokens, stream.
\<close>

datatype request =
    OllamaGenerateRequest string string string string bool real int
  | ChatCompletionsRequest string string string "(string \<times> string) list list" real int bool

record LLMClient =
  provider :: string
  model :: string
  base_url :: string
  api_key :: "string option"

definition OLLAMA_NOT_RUNNING :: string where
  "OLLAMA_NOT_RUNNING =
     ''Ollama is not running. Start it:'' @ NL @
     ''  1. Install: https://ollama.com/download'' @ NL @
     ''  2. Run: ollama serve'' @ NL @
     ''  3. Pull model: ollama pull llama3.2:3b''"

definition OLLAMA_STREAM_ERROR :: string where
  "OLLAMA_STREAM_ERROR =
     ''[Error] Ollama is not running. Install from https://ollama.com and run: ollama serve''"

definition ollama_generate ::
  "(request \<Rightarrow> http_result) \<Rightarrow> LLMClient \<Rightarrow> string \<Rightarrow> string \<Rightarrow> real \<Rightarrow> exn + string" where
  "ollama_generate post c prompt system temperature =
     (case post (OllamaGenerateRequest (base_url c @ ''/api/generate'') (model c)
                   prompt system False temperature 1024) of
        PostRaises (RequestsConnectionError _) \<Rightarrow> Inl (ConnectionError OLLAMA_NOT_RUNNING)
      | PostRaises e \<Rightarrow> Inl e
      | PostReturns r \<Rightarrow>
          (case raise_for_status r of
             Some (RequestsConnectionError _) \<Rightarrow> Inl (ConnectionError OLLAMA_NOT_RUNNING)
           | Some e \<Rightarrow> Inl e
           | None \<Rightarrow>
               (case json r of
                  Inl (RequestsConnectionError _) \<Rightarrow> Inl (ConnectionError OLLAMA_NOT_RUNNING)
                | Inl e \<Rightarrow> Inl e
                | Inr data \<Rightarrow>
                    Inr (strip (case get_response data of None \<Rightarrow> [] | Some s \<Rightarrow> s)))))"

definition bearer :: "string option \<Rightarrow> string" where
  "bearer key = ''Bearer '' @ (case key of None \<Rightarrow> ''None'' | Some k \<Rightarrow> k)"

definition completion_messages :: "string \<Rightarrow> string \<Rightarrow> (string \<times> string) list list" where
  "completion_messages prompt system =
     (if system \<noteq> [] then [[(''role'', ''system''), (''content'', system)]] else [])
     @ [[(''role'', ''user''), (''content'', prompt)]]"

definition openai_generate ::
  "(request \<Rightarrow> http_result) \<Rightarrow> LLMClient \<Rightarrow> string \<Rightarrow> string \<Rightarrow> real \<Rightarrow> int \<Rightarrow> exn + string"
where
  "openai_generate post c prompt system temperature max_tokens =
     (case post (ChatCompletionsRequest (base_url c @ ''/chat/completions'') (bearer (api_key c))
                   (model c) (completion_messages prompt system) temperature max_tokens False) of
        PostRaises e \<Rightarrow> Inl e
      | PostReturns r \<Rightarrow>
          (case raise_for_status r of
             Some e \<Rightarrow> Inl e
           | None \<Rightarrow>
               (case json r of
                  Inl e \<Rightarrow> Inl e
                | Inr data \<Rightarrow>
                    (case message_content data of
                       Inl e \<Rightarrow> Inl e
                     | Inr s \<Rightarrow> Inr (strip s)))))"

definition generate ::
  "(request \<Rightarrow> http_result) \<Rightarrow> LLMClient \<Rightarrow> string \<Rightarrow> string \<Rightarrow> real \<Rightarrow> int \<Rightarrow> exn + string"
where
  "generate post c prompt system temperature max_tokens =
     (if provider c = ''ollama'' then ollama_generate post c prompt system temperature
      else openai_generate post c prompt system temperature max_tokens)"

text \<open>
  A generator is the list of the values it yields and the exception that ends it, if one
  does. \<open>json.loads\<close> on one line is a parameter.
\<close>

type_synonym token_stream = "string list \<times> exn option"

fun ollama_lines ::
  "(string \<Rightarrow> exn + json_value) \<Rightarrow> string list \<Rightarrow> exn option \<Rightarrow> token_stream" where
  "ollama_lines json_loads [] end_error = ([], end_error)"
| "ollama_lines json_loads (line # rest) end_error =
     (if line = [] then ollama_lines json_loads rest end_error
      else (case json_loads line of
              Inl e \<Rightarrow> ([], Some e)
            | Inr data \<Rightarrow>
                (let token = (case get_response data of
                                None \<Rightarrow> []
                              | Some t \<Rightarrow> if t \<noteq> [] then [t] else [])
                 in if get_done data then (token, None)
                    else (case ollama_lines json_loads rest end_error of
                            (tokens, err) \<Rightarrow> (token @ tokens, err)))))"

definition ollama_stream ::
  "(string \<Rightarrow> exn + json_value) \<Rightarrow> (request \<Rightarrow> http_result) \<Rightarrow> LLMClient \<Rightarrow>
   string \<Rightarrow> string \<Rightarrow> real \<Rightarrow> token_stream" where
  "ollama_stream json_loads post c prompt system temperature =
     (case (case post (OllamaGenerateRequest (base_url c @ ''/api/generate'') (model c)
                         prompt system True temperature 1024) of
              PostRaises e \<Rightarrow> ([], Some e)
            | PostReturns r \<Rightarrow>
                (case raise_for_status r of
                   Some e \<Rightarrow> ([], Some e)
                 | None \<Rightarrow> ollama_lines json_loads (iter_lines r) (iter_lines_error r))) of
        (tokens, Some (RequestsConnectionError _)) \<Rightarrow> (tokens @ [OLLAMA_STREAM_ERROR], None)
      | (tokens, err) \<Rightarrow> (tokens, err))"

definition caught_per_line :: "exn \<Rightarrow> bool" where
  "caught_per_line e =
     (case e of JSONDecodeError _ \<Rightarrow> True | KeyError _ \<Rightarrow> True | IndexError _ \<Rightarrow> True
      | _ \<Rightarrow> False)"

fun openai_lines ::
  "(string \<Rightarrow> exn + json_value) \<Rightarrow> string list \<Rightarrow> exn option \<Rightarrow> token_stream" where
  "openai_lines json_loads [] end_error = ([], end_error)"
| "openai_lines json_loads (line # rest) end_error =
     (if line = [] then openai_lines json_loads rest end_error
      else (let text = (if startswith line ''data: '' then drop 6 line else line)
            in if strip text = ''[DONE]'' then ([], None)
               else (case (case json_loads text of
                             Inl e \<Rightarrow> Inl e
                           | Inr chunk \<Rightarrow> delta_content chunk) of
                       Inl e \<Rightarrow>
                         (if caught_per_line e then openai_lines json_loads rest end_error
                          else ([], Some e))
                     | Inr content \<Rightarrow>
                         (let token = (case content of
                                         None \<Rightarrow> []
                                       | Some t \<Rightarrow> if t \<noteq> [] then [t] else [])
                          in (case openai_lines json_loads rest end_error of
                                (tokens, err) \<Rightarrow> (token @ tokens, err))))))"

definition openai_stream ::
  "(string \<Rightarrow> exn + json_value) \<Rightarrow> (request \<Rightarrow> http_result) \<Rightarrow> LLMClient \<Rightarrow>
   string \<Rightarrow> string \<Rightarrow> real \<Rightarrow> token_stream" where
  "openai_stream json_loads post c prompt system temperature =
     (case (case post (ChatCompletionsRequest (base_url c @ ''/chat/completions'')
                         (bearer (api_key c)) (model c) (completion_messages prompt system)
                         temperature 1024 True) of
              PostRaises e \<Rightarrow> ([], Some e)
            | PostReturns r \<Rightarrow>
                (case raise_for_status r of
                   Some e \<Rightarrow> ([], Some e)
                 | None \<Rightarrow> openai_lines json_loads (iter_lines r) (iter_lines_error r))) of
        (tokens, Some e) \<Rightarrow> (tokens @ [''[Error] '' @ str_exn e], None)
      | (tokens, None) \<Rightarrow> (tokens, None))"

definition stream ::
  "(string \<Rightarrow> exn + json_value) \<Rightarrow> (request \<Rightarrow> http_result) \<Rightarrow> LLMClient \<Rightarrow>
   string \<Rightarrow> string \<Rightarrow> real \<Rightarrow> token_stream" where
  "stream json_loads post c prompt system temperature =
     (if provider c = ''ollama'' then ollama_stream json_loads post c prompt system temperature
      else openai_stream json_loads post c prompt system temperature)"

section \<open>The chat engine (services/ml/serving/chat\_engine.py)\<close>

definition EM_DASH :: string where
  "EM_DASH = [CHR 0xE2, CHR 0x80, CHR 0x94]"

definition SYSTEM_PROMPT :: string where
  "SYSTEM_PROMPT = concat (map (\<lambda>line. line @ NL)
     [''You are **FitFlex AI**, an expert fitness and gym management assistant powered by real gym data.'',
      '''',
      ''Your capabilities:'',
      ''- Personalized workout recommendations based on actual member demographics and performance data'',
      ''- Calorie burn predictions grounded in real exercise data'',
      ''- Progress analysis using body performance benchmarks'',
      ''- Attendance and churn risk insights from membership patterns'',
      ''- Nutrition and recovery advice backed by sports science'',
      '''',
      ''Guidelines:'',
      ''- Always be encouraging, data-driven, and specific'',
      ''- When you reference statistics, mention they come from gym data'',
      ''- Give actionable advice with numbers (sets, reps, durations, calories)'',
      ''- If asked about a specific member, use the data context provided'',
      ''- For medical concerns, recommend consulting a healthcare professional'',
      ''- Keep responses concise but thorough '' @ EM_DASH @ '' aim for 2-4 paragraphs'',
      ''- Use formatting (bold, bullets) for readability''])"

text \<open>The rule of three heavy horizontal bars (U+2501) that frames the prompt blocks.\<close>

definition BARS :: string where
  "BARS = concat (replicate 3 [CHR 0xE2, CHR 0x94, CHR 0x81])"

record chat_message =
  role :: string
  content :: string

record ('v, 'r) ChatEngine =
  llm :: LLMClient
  kb :: "('v, 'r) KnowledgeBase option"
  conversations :: "string \<Rightarrow> chat_message list option"
  max_history :: int

definition ChatEngine_init ::
  "LLMClient \<Rightarrow> ('v, 'r) KnowledgeBase option \<Rightarrow> ('v, 'r) ChatEngine" where
  "ChatEngine_init l k = \<lparr>llm = l, kb = k, conversations = Map.empty, max_history = 10\<rparr>"

definition retrieve_context ::
  "('v, 'r) library \<Rightarrow> ('v, 'r) ChatEngine \<Rightarrow> string \<Rightarrow> int \<Rightarrow> exn + string" where
  "retrieve_context L e question top_k =
     (case kb e of
        None \<Rightarrow> Inr []
      | Some k \<Rightarrow>
          (case query L k question top_k of
             Inl ex \<Rightarrow> Inl ex
           | Inr results \<Rightarrow>
               (if results = [] then Inr []
                else Inr (py_join (NL @ NL)
                       (map (\<lambda>r. ''['' @ (case map_of (res_metadata r) ''category'' of
                                            None \<Rightarrow> ''data'' | Some c \<Rightarrow> c)
                                  @ ''] '' @ res_text r) results)))))"

definition build_prompt ::
  "('v, 'r) ChatEngine \<Rightarrow> string \<Rightarrow> string \<Rightarrow> chat_message list \<Rightarrow> string" where
  "build_prompt e message context history =
     py_join NL
       ((if context \<noteq> [] then
           [BARS @ '' GYM DATA CONTEXT '' @ BARS, context, BARS @ '' END CONTEXT '' @ BARS @ NL]
         else [])
        @ (if history \<noteq> [] then
             [BARS @ '' CONVERSATION HISTORY '' @ BARS]
             @ map (\<lambda>msg. (if role msg = ''user'' then ''User'' else ''FitFlex AI'')
                           @ '': '' @ content msg)
                 (py_slice_from (- max_history e) history)
             @ [BARS @ '' END HISTORY '' @ BARS @ NL]
           else [])
        @ [''User: '' @ message,
           NL @ ''Respond helpfully based on the gym data context above:''])"

text \<open>
  What one call meets outside the engine: the network, and the two readings of
  \<open>time.perf_counter()\<close>.
\<close>

record world =
  requests_post :: "request \<Rightarrow> http_result"
  perf_counter_start :: real
  perf_counter_end :: real

record chat_response =
  response :: string
  context_used :: bool
  chunks_retrieved :: nat
  inference_ms :: real
  response_model :: string
  response_provider :: string

text \<open>
  Storing a turn: the two appends and the trim. \<open>history\<close> is the session's list, or the
  fresh empty list when the session is new.
\<close>

definition store_turn ::
  "('v, 'r) ChatEngine \<Rightarrow> string \<Rightarrow> string \<Rightarrow> string \<Rightarrow> ('v, 'r) ChatEngine" where
  "store_turn e session_id message response_text =
     (let appended = (case conversations e session_id of None \<Rightarrow> [] | Some h \<Rightarrow> h)
                     @ [\<lparr>role = ''user'', content = message\<rparr>,
                        \<lparr>role = ''assistant'', content = response_text\<rparr>]
      in e\<lparr>conversations := (conversations e)(session_id \<mapsto>
             (if int (length appended) > max_history e * 2
              then py_slice_from (- max_history e * 2) appended
              else appended))\<rparr>)"

text \<open>
  \<open>chat\<close> returns the response dict or the exception that leaves it, and the engine as the
  call leaves it. The default arguments of \<open>generate\<close> are temperature 0.7 and 1024 tokens;
  the second query, for \<open>chunks_retrieved\<close>, runs with the default \<open>top_k\<close> of \<open>query\<close>, 8.
\<close>

definition chat ::
  "('v, 'r) library \<Rightarrow> world \<Rightarrow> ('v, 'r) ChatEngine \<Rightarrow> string \<Rightarrow> string \<Rightarrow>
   (exn + chat_response) \<times> ('v, 'r) ChatEngine" where
  "chat L w e message session_id =
     (case retrieve_context L e message 6 of
        Inl ex \<Rightarrow> (Inl ex, e)
      | Inr context \<Rightarrow>
          (let history = (case conversations e session_id of None \<Rightarrow> [] | Some h \<Rightarrow> h);
               prompt = build_prompt e message context history
           in (case (case generate (requests_post w) (llm e) prompt SYSTEM_PROMPT (7 / 10) 1024 of
                       Inl (ConnectionError msg) \<Rightarrow> Inr msg
                     | Inl ex \<Rightarrow> Inl ex
                     | Inr text \<Rightarrow> Inr text) of
                 Inl ex \<Rightarrow> (Inl ex, e)
               | Inr response_text \<Rightarrow>
                   (let elapsed_ms = (perf_counter_end w - perf_counter_start w) * 1000;
                        e' = store_turn e session_id message response_text
                    in (case (case kb e of
                                None \<Rightarrow> Inr 0
                              | Some k \<Rightarrow>
                                  (case query L k message 8 of
                                     Inl ex \<Rightarrow> Inl ex
                                   | Inr results \<Rightarrow> Inr (length results))) of
                          Inl ex \<Rightarrow> (Inl ex, e')
                        | Inr n \<Rightarrow>
                            (Inr \<lparr>response = response_text,
                                  context_used = (length context > 0),
                                  chunks_retrieved = n,
                                  inference_ms = py_round L elapsed_ms 1,
                                  response_model = model (llm e),
                                  response_provider = provider (llm e)\<rparr>, e'))))))"

text \<open>
  An event of the stream is the JSON object in one \<open>data:\<close> frame: a token, or the final
  object with \<open>inference_ms\<close> and \<open>model\<close>. \<open>stream_chat\<close> gives the events it yields, the
  exception that ends the generator if one does, and the engine as it leaves it.
\<close>

datatype sse_event = TokenEvent string | DoneEvent real string

definition stream_chat ::
  "('v, 'r) library \<Rightarrow> (string \<Rightarrow> exn + json_value) \<Rightarrow> world \<Rightarrow> ('v, 'r) ChatEngine \<Rightarrow>
   string \<Rightarrow> string \<Rightarrow> sse_event list \<times> exn option \<times> ('v, 'r) ChatEngine" where
  "stream_chat L json_loads w e message session_id =
     (case retrieve_context L e message 6 of
        Inl ex \<Rightarrow> ([], Some ex, e)
      | Inr context \<Rightarrow>
          (let history = (case conversations e session_id of None \<Rightarrow> [] | Some h \<Rightarrow> h);
               prompt = build_prompt e message context history
           in (case (case stream json_loads (requests_post w) (llm e) prompt SYSTEM_PROMPT (7 / 10) of
                       (tokens, None) \<Rightarrow> Inr tokens
                     | (tokens, Some (ConnectionError error_msg)) \<Rightarrow> Inr (tokens @ [error_msg])
                     | (tokens, Some ex) \<Rightarrow> Inl (tokens, ex)) of
                 Inl (tokens, ex) \<Rightarrow> (map TokenEvent tokens, Some ex, e)
               | Inr full_response \<Rightarrow>
                   (let elapsed_ms = (perf_counter_end w - perf_counter_start w) * 1000;
                        response_text = concat full_response;
                        e' = store_turn e session_id message response_text
                    in (map TokenEvent full_response
                          @ [DoneEvent (py_round L elapsed_ms 1) (model (llm e))],
                        None, e')))))"

definition clear_history :: "('v, 'r) ChatEngine \<Rightarrow> string \<Rightarrow> ('v, 'r) ChatEngine" where
  "clear_history e session_id = e\<lparr>conversations := (conversations e)(session_id := None)\<rparr>"

text \<open>
  A history of calls on one engine. A call that raises leaves the engine as the exception
  found it, and the caller goes on with that engine.
\<close>

datatype call =
    Chat world string string
  | StreamChat world string string
  | ClearHistory string

fun step ::
  "('v, 'r) library \<Rightarrow> (string \<Rightarrow> exn + json_value) \<Rightarrow> ('v, 'r) ChatEngine \<Rightarrow> call \<Rightarrow>
   ('v, 'r) ChatEngine" where
  "step L json_loads e (Chat w message session_id) = snd (chat L w e message session_id)"
| "step L json_loads e (StreamChat w message session_id) =
     snd (snd (stream_chat L json_loads w e message session_id))"
| "step L json_loads e (ClearHistory session_id) = clear_history e session_id"

definition run ::
  "('v, 'r) library \<Rightarrow> (string \<Rightarrow> exn + json_value) \<Rightarrow> ('v, 'r) ChatEngine \<Rightarrow> call list \<Rightarrow>
   ('v, 'r) ChatEngine" where
  "run L json_loads e calls = foldl (step L json_loads) e calls"

section \<open>Concrete stores, backends and engines\<close>

text \<open>
  A small library for the examples: a vectorizer is fitted or not, a row of the matrix is
  the similarity its document has with every question, and rounding changes nothing. Its
  \<open>argsort\<close> sorts by insertion; where the scores are all different every ascending
  \<open>argsort\<close> gives the same list, and on two equal scores it gives \<open>[0, 1]\<close>, as
  \<open>np.argsort\<close> does.
\<close>

definition insertion_argsort :: "real list \<Rightarrow> nat list" where
  "insertion_argsort scores = sort_key (\<lambda>i. scores ! i) [0..<length scores]"

definition example_library :: "(bool, real) library" where
  "example_library =
     \<lparr>TfidfVectorizer = False,
      fit_transform = (\<lambda>v docs. if docs = [] then Inl (ValueError ''empty vocabulary'')
                                 else Inr (True, map (\<lambda>d. real (length d) / 100) docs)),
      transform = (\<lambda>v q. if v then Inr (real (length q) / 100)
                           else Inl (NotFittedError ''not fitted'')),
      cosine_similarity = (\<lambda>q_vec row. row),
      argsort = insertion_argsort,
      py_round = (\<lambda>x n. x)\<rparr>"

definition ranked_kb :: "(bool, real) KnowledgeBase" where
  "ranked_kb =
     add (add (add KnowledgeBase_init ''cardio'' ''general'' '''') ''strength'' ''general'' '''')
       ''yoga'' ''general'' ''''
       \<lparr>vectorizer := Some True, tfidf_matrix := Some [9/10, 8/10, 7/10]\<rparr>"


definition seven_kb :: "(bool, real) KnowledgeBase" where
  "seven_kb =
     \<lparr>documents = [''d0'', ''d1'', ''d2'', ''d3'', ''d4'', ''d5'', ''d6''],
      metadata = replicate 7 [(''category'', ''general''), (''source'', '''')],
      vectorizer = Some True,
      tfidf_matrix = Some [9/10, 8/10, 7/10, 6/10, 5/10, 4/10, 3/10]\<rparr>"

text \<open>
  A line format for the examples, in place of JSON: \<open>T:text\<close> is an object with the
  token \<open>text\<close>, \<open>D\<close> the object with \<open>done\<close> set, anything else does not decode.
\<close>

definition example_json_loads :: "string \<Rightarrow> exn + json_value" where
  "example_json_loads line =
     (if startswith line ''T:'' then
        Inr \<lparr>get_response = Some (drop 2 line), get_done = False,
             message_content = Inl (KeyError ''choices''),
             delta_content = Inl (KeyError ''choices'')\<rparr>
      else if line = ''D'' then
        Inr \<lparr>get_response = None, get_done = True,
             message_content = Inl (KeyError ''choices''),
             delta_content = Inl (KeyError ''choices'')\<rparr>
      else Inl (JSONDecodeError line))"

definition ollama_client :: LLMClient where
  "ollama_client =
     \<lparr>provider = ''ollama'', model = ''llama3.2:3b'', base_url = ''http://localhost:11434'',
      api_key = None\<rparr>"

definition backend_down :: world where
  "backend_down =
     \<lparr>requests_post = (\<lambda>req. PostRaises (RequestsConnectionError ''Connection refused'')),
      perf_counter_start = 0, perf_counter_end = 1/4\<rparr>"

definition backend_http_500 :: world where
  "backend_http_500 =
     \<lparr>requests_post = (\<lambda>req. PostReturns
        \<lparr>raise_for_status = Some (HTTPError ''500 Server Error''),
         json = Inl (JSONDecodeError ''''), iter_lines = [], iter_lines_error = None\<rparr>),
      perf_counter_start = 0, perf_counter_end = 1/4\<rparr>"

text \<open>
  A backend that answers a blocking request with the text \<open>out\<close> and a streaming request
  with the lines \<open>ls\<close>.
\<close>

definition reply_json :: "string \<Rightarrow> json_value" where
  "reply_json out =
     \<lparr>get_response = Some out, get_done = True,
      message_content = Inl (KeyError ''choices''),
      delta_content = Inl (KeyError ''choices'')\<rparr>"

definition reply :: "string \<Rightarrow> string list \<Rightarrow> http_response" where
  "reply out ls =
     \<lparr>raise_for_status = None, json = Inr (reply_json out),
      iter_lines = ls, iter_lines_error = None\<rparr>"

definition backend_replying :: "string \<Rightarrow> string list \<Rightarrow> world" where
  "backend_replying out ls =
     \<lparr>requests_post = (\<lambda>req. PostReturns (reply out ls)),
      perf_counter_start = 0, perf_counter_end = 1/4\<rparr>"

definition fresh_engine :: "(bool, real) ChatEngine" where
  "fresh_engine = ChatEngine_init ollama_client None"

section \<open>The invariant of the session memory\<close>

text \<open>
  A session is in order for the bound \<open>mh\<close> when its length is even and at most \<open>2 * mh\<close>
  and its roles alternate, user first; an engine is in order when its bound is the 10 of
  the constructor and every session is in order.
\<close>

definition session_ok :: "int \<Rightarrow> chat_message list \<Rightarrow> bool" where
  "session_ok mh msgs \<longleftrightarrow>
     even (length msgs) \<and> int (length msgs) \<le> 2 * mh
     \<and> (\<forall>i<length msgs. role (msgs ! i) = (if even i then ''user'' else ''assistant''))"

definition engine_ok :: "('v, 'r) ChatEngine \<Rightarrow> bool" where
  "engine_ok e \<longleftrightarrow>
     max_history e = 10 \<and> (\<forall>sid msgs. conversations e sid = Some msgs \<longrightarrow> session_ok 10 msgs)"

section \<open>Ranking\<close>

lemma insertion_argsort_ascending: "sorts_ascending insertion_argsort s"
  by (simp add: sorts_ascending_def insertion_argsort_def)

lemma py_slice_to_sorted: "sorted_wrt R xs \<Longrightarrow> sorted_wrt R (py_slice_to k xs)"
  by (simp add: py_slice_to_def sorted_wrt_take)

lemma py_slice_to_set: "set (py_slice_to k xs) \<subseteq> set xs"
  by (auto simp: py_slice_to_def dest: in_set_takeD)

lemma py_slice_to_length: "0 \<le> k \<Longrightarrow> int (length (py_slice_to k xs)) \<le> k"
  by (simp add: py_slice_to_def)


lemma top_idx_sorted:
  assumes "sorts_ascending f s"
  shows "sorted_wrt (\<lambda>i j. s ! j \<le> s ! i) (py_slice_to k (rev (f s)))"
proof -
  have "sorted_wrt (\<lambda>i j. s ! i \<le> s ! j) (f s)"
    using assms by (simp add: sorts_ascending_def sorted_map)
  then have "sorted_wrt (\<lambda>i j. s ! j \<le> s ! i) (rev (f s))"
    by (simp add: sorted_wrt_rev)
  then show ?thesis by (rule py_slice_to_sorted)
qed

lemma top_idx_in_range:
  "sorts_ascending f s \<Longrightarrow> i \<in> set (py_slice_to k (rev (f s))) \<Longrightarrow> i < length s"
  using py_slice_to_set[of k "rev (f s)"] by (auto simp: sorts_ascending_def)

lemma top_idx_distinct: "sorts_ascending f s \<Longrightarrow> distinct (py_slice_to k (rev (f s)))"
  by (simp add: sorts_ascending_def py_slice_to_def)

lemma collect_ok:
  "\<forall>i\<in>set idx. i < length scores \<and> i < length (documents K) \<and> i < length (metadata K) \<Longrightarrow>
   collect L K scores idx =
     Inr (map (\<lambda>i. \<lparr>res_text = documents K ! i, res_score = py_round L (scores ! i) 4,
                     res_metadata = metadata K ! i\<rparr>)
            (filter (\<lambda>i. RELEVANCE_FLOOR < scores ! i) idx))"
  by (induction idx) simp_all

lemma collect_none:
  "\<forall>i\<in>set idx. i < length scores \<and> \<not> RELEVANCE_FLOOR < scores ! i \<Longrightarrow>
   collect L K scores idx = Inr []"
  by (induction idx) simp_all

lemma query_built:
  assumes "vectorizer K = Some v" and "tfidf_matrix K = Some m"
    and "transform L v question = Inr q_vec"
  shows "query L K question top_k =
         collect L K (map (cosine_similarity L q_vec) m)
           (py_slice_to top_k (rev (argsort L (map (cosine_similarity L q_vec) m))))"
  using assms by (simp add: query_def Let_def)

text \<open>
  What \<open>query\<close> returns on a built index with a row for no more than the documents and
  metadata entries there are: the results of the indices that clear the floor among the
  first \<open>top_k\<close> of the reversed \<open>argsort\<close>.
\<close>

lemma query_selected:
  assumes "vectorizer K = Some v" and "tfidf_matrix K = Some m"
    and "transform L v question = Inr q_vec"
    and "sorts_ascending (argsort L) (map (cosine_similarity L q_vec) m)"
    and "length m \<le> length (documents K)" and "length m \<le> length (metadata K)"
  shows "query L K question top_k =
           Inr (map (\<lambda>i. \<lparr>res_text = documents K ! i,
                           res_score = py_round L (cosine_similarity L q_vec (m ! i)) 4,
                           res_metadata = metadata K ! i\<rparr>)
                  (filter (\<lambda>i. RELEVANCE_FLOOR < map (cosine_similarity L q_vec) m ! i)
                     (py_slice_to top_k (rev (argsort L (map (cosine_similarity L q_vec) m))))))"
proof -
  define scores where "scores = map (cosine_similarity L q_vec) m"
  define top_idx where "top_idx = py_slice_to top_k (rev (argsort L scores))"
  have in_range: "\<forall>i\<in>set top_idx. i < length m"
    using top_idx_in_range[OF assms(4), of _ top_k] by (simp add: top_idx_def scores_def)
  have "query L K question top_k = collect L K scores top_idx"
    unfolding scores_def top_idx_def by (rule query_built[OF assms(1-3)])
  also have "\<dots> = Inr (map (\<lambda>i. \<lparr>res_text = documents K ! i,
                          res_score = py_round L (scores ! i) 4,
                          res_metadata = metadata K ! i\<rparr>)
                      (filter (\<lambda>i. RELEVANCE_FLOOR < scores ! i) top_idx))"
    using in_range assms(5,6) by (intro collect_ok) (auto simp: scores_def)
  also have "map (\<lambda>i. \<lparr>res_text = documents K ! i, res_score = py_round L (scores ! i) 4,
                          res_metadata = metadata K ! i\<rparr>)
                      (filter (\<lambda>i. RELEVANCE_FLOOR < scores ! i) top_idx)
             = map (\<lambda>i. \<lparr>res_text = documents K ! i,
                          res_score = py_round L (cosine_similarity L q_vec (m ! i)) 4,
                          res_metadata = metadata K ! i\<rparr>)
                      (filter (\<lambda>i. RELEVANCE_FLOOR < scores ! i) top_idx)"
    using in_range by (simp add: scores_def)
  finally show ?thesis unfolding scores_def top_idx_def .
qed

text \<open>
  C1, amended. On a built index (vectorizer fitted, matrix present) whose matrix has no more
  rows than the store has documents and metadata entries, with \<open>np.argsort\<close> giving the
  indices in ascending order of score, and for \<open>top_k\<close> not negative, \<open>query\<close> returns at
  most \<open>top_k\<close> documents, all different, each with cosine similarity above the floor (the
  double \<open>0.02\<close>, hence above 0.02), in order of descending similarity. When no row clears
  the floor it returns the empty list and raises nothing, for every \<open>top_k\<close> and whatever
  the lengths of the lists.
\<close>

theorem query_top_k:
  assumes "vectorizer K = Some v" and "tfidf_matrix K = Some m"
    and "transform L v question = Inr q_vec"
    and "sorts_ascending (argsort L) (map (cosine_similarity L q_vec) m)"
  shows "(length m \<le> length (documents K) \<and> length m \<le> length (metadata K) \<and> 0 \<le> top_k \<longrightarrow>
          (\<exists>idx. query L K question top_k =
                   Inr (map (\<lambda>i. \<lparr>res_text = documents K ! i,
                                   res_score = py_round L (cosine_similarity L q_vec (m ! i)) 4,
                                   res_metadata = metadata K ! i\<rparr>) idx)
               \<and> int (length idx) \<le> top_k
               \<and> distinct idx
               \<and> (\<forall>i\<in>set idx. i < length m
                      \<and> RELEVANCE_FLOOR < cosine_similarity L q_vec (m ! i)
                      \<and> 0.02 < cosine_similarity L q_vec (m ! i))
               \<and> sorted_wrt (\<lambda>i j. cosine_similarity L q_vec (m ! j)
                                     \<le> cosine_similarity L q_vec (m ! i)) idx))
       \<and> ((\<forall>i<length m. \<not> RELEVANCE_FLOOR < cosine_similarity L q_vec (m ! i)) \<longrightarrow>
            query L K question top_k = Inr [])"
proof -
  define scores where "scores = map (cosine_similarity L q_vec) m"
  define top_idx where "top_idx = py_slice_to top_k (rev (argsort L scores))"
  have asc: "sorts_ascending (argsort L) scores"
    using assms(4) by (simp add: scores_def)
  have q: "query L K question top_k = collect L K scores top_idx"
    unfolding scores_def top_idx_def by (rule query_built[OF assms(1-3)])
  have in_range: "\<forall>i\<in>set top_idx. i < length m"
    using top_idx_in_range[OF asc, of _ top_k] by (simp add: top_idx_def scores_def)
  have nth: "\<And>i. i < length m \<Longrightarrow> scores ! i = cosine_similarity L q_vec (m ! i)"
    by (simp add: scores_def)
  have len: "length scores = length m" by (simp add: scores_def)
  have part2: "(\<forall>i<length m. \<not> RELEVANCE_FLOOR < cosine_similarity L q_vec (m ! i)) \<longrightarrow>
            query L K question top_k = Inr []"
    using in_range nth by (auto simp: q len intro!: collect_none)
  have part1: "\<exists>idx. query L K question top_k =
                   Inr (map (\<lambda>i. \<lparr>res_text = documents K ! i,
                                   res_score = py_round L (cosine_similarity L q_vec (m ! i)) 4,
                                   res_metadata = metadata K ! i\<rparr>) idx)
               \<and> int (length idx) \<le> top_k
               \<and> distinct idx
               \<and> (\<forall>i\<in>set idx. i < length m
                      \<and> RELEVANCE_FLOOR < cosine_similarity L q_vec (m ! i)
                      \<and> 0.02 < cosine_similarity L q_vec (m ! i))
               \<and> sorted_wrt (\<lambda>i j. cosine_similarity L q_vec (m ! j)
                                     \<le> cosine_similarity L q_vec (m ! i)) idx"
    if h: "length m \<le> length (documents K)" "length m \<le> length (metadata K)" "0 \<le> top_k"
  proof -
    define idx where "idx = filter (\<lambda>i. RELEVANCE_FLOOR < scores ! i) top_idx"
    have sub: "\<forall>i\<in>set idx. i < length m \<and> RELEVANCE_FLOOR < scores ! i"
      using in_range by (simp add: idx_def)
    have a: "query L K question top_k =
                   Inr (map (\<lambda>i. \<lparr>res_text = documents K ! i,
                                   res_score = py_round L (cosine_similarity L q_vec (m ! i)) 4,
                                   res_metadata = metadata K ! i\<rparr>) idx)"
      unfolding idx_def top_idx_def scores_def
      by (rule query_selected[OF assms(1-4) h(1,2)])
    have "length idx \<le> length top_idx" by (simp add: idx_def)
    moreover have "int (length top_idx) \<le> top_k"
      using h(3) by (simp add: top_idx_def py_slice_to_length)
    ultimately have b: "int (length idx) \<le> top_k" by linarith
    have c: "distinct idx"
      unfolding idx_def top_idx_def using top_idx_distinct[OF asc] by simp
    have fl: "(0.02::real) < RELEVANCE_FLOOR" by (simp add: RELEVANCE_FLOOR_def)
    have d: "\<forall>i\<in>set idx. i < length m
                      \<and> RELEVANCE_FLOOR < cosine_similarity L q_vec (m ! i)
                      \<and> 0.02 < cosine_similarity L q_vec (m ! i)"
      using sub nth fl by fastforce
    have "sorted_wrt (\<lambda>i j. scores ! j \<le> scores ! i) idx"
      unfolding idx_def top_idx_def by (intro sorted_wrt_filter top_idx_sorted asc)
    then have e: "sorted_wrt (\<lambda>i j. cosine_similarity L q_vec (m ! j)
                                     \<le> cosine_similarity L q_vec (m ! i)) idx"
      by (rule sorted_wrt_mono_rel[rotated]) (use sub nth in auto)
    show ?thesis using a b c d e by blast
  qed
  show ?thesis using part1 part2 by blast
qed

theorem query_top_k_witness:
  "vectorizer ranked_kb = Some True \<and> tfidf_matrix ranked_kb = Some [9/10, 8/10, 7/10]
   \<and> transform example_library True ''calories'' = Inr (2/25)
   \<and> sorts_ascending (argsort example_library)
        (map (cosine_similarity example_library (2/25)) [9/10, 8/10, 7/10])
   \<and> ((length [9/10, 8/10, 7/10 :: real] \<le> length (documents ranked_kb)
        \<and> length [9/10, 8/10, 7/10 :: real] \<le> length (metadata ranked_kb) \<and> (0::int) \<le> 2)
       \<and> (\<exists>idx. query example_library ranked_kb ''calories'' 2 =
                   Inr (map (\<lambda>i. \<lparr>res_text = documents ranked_kb ! i,
                          res_score = py_round example_library
                            (cosine_similarity example_library (2/25) ([9/10, 8/10, 7/10] ! i)) 4,
                          res_metadata = metadata ranked_kb ! i\<rparr>) idx)
               \<and> int (length idx) \<le> 2
               \<and> distinct idx
               \<and> (\<forall>i\<in>set idx. i < length [9/10, 8/10, 7/10 :: real]
                      \<and> RELEVANCE_FLOOR
                          < cosine_similarity example_library (2/25) ([9/10, 8/10, 7/10] ! i)
                      \<and> 0.02 < cosine_similarity example_library (2/25) ([9/10, 8/10, 7/10] ! i))
               \<and> sorted_wrt (\<lambda>i j. cosine_similarity example_library (2/25) ([9/10, 8/10, 7/10] ! j)
                                     \<le> cosine_similarity example_library (2/25) ([9/10, 8/10, 7/10] ! i))
                     idx))"
proof -
  have h1: "vectorizer ranked_kb = Some True" by (simp add: ranked_kb_def)
  have h2: "tfidf_matrix ranked_kb = Some [9/10, 8/10, 7/10]" by (simp add: ranked_kb_def)
  have h3: "transform example_library True ''calories'' = Inr (2/25)"
    by (simp add: example_library_def)
  have a: "argsort example_library = insertion_argsort" by (simp add: example_library_def)
  have h4: "sorts_ascending (argsort example_library)
        (map (cosine_similarity example_library (2/25)) [9/10, 8/10, 7/10])"
    unfolding a by (rule insertion_argsort_ascending)
  have h5: "length [9/10, 8/10, 7/10 :: real] \<le> length (documents ranked_kb)
        \<and> length [9/10, 8/10, 7/10 :: real] \<le> length (metadata ranked_kb) \<and> (0::int) \<le> 2"
    by (simp add: ranked_kb_def add_def KnowledgeBase_init_def)
  show ?thesis
    using h1 h2 h3 h4 h5 query_top_k[OF h1 h2 h3 h4, of 2] by blast
qed

text \<open>
  C1 as stated fails for a negative \<open>top_k\<close>: the slice \<open>[:-1]\<close> drops only the last of
  the ranked indices, so that two documents are returned where at most \<open>-1\<close> were promised.
\<close>

theorem query_top_k_counterexample:
  "query example_library ranked_kb ''calories'' (- 1) =
     Inr [\<lparr>res_text = ''cardio'', res_score = 9/10,
           res_metadata = [(''category'', ''general''), (''source'', '''')]\<rparr>,
          \<lparr>res_text = ''strength'', res_score = 8/10,
           res_metadata = [(''category'', ''general''), (''source'', '''')]\<rparr>]
   \<and> \<not> int (length [''cardio'', ''strength'']) \<le> - 1"
  by (simp add: query_def ranked_kb_def add_def KnowledgeBase_init_def example_library_def
      insertion_argsort_def upt_rec py_slice_to_def RELEVANCE_FLOOR_def)




section \<open>Querying before the index is built\<close>

lemma add_vectorizer: "vectorizer (add K t c s) = vectorizer K"
  by (simp add: add_def)

lemma foldl_add_vectorizer:
  "vectorizer (foldl (\<lambda>kb (t, c, s). add kb t c s) kb0 xs) = vectorizer kb0"
  by (induction xs arbitrary: kb0) (simp_all add: add_vectorizer split: prod.splits)

text \<open>
  C9. A store on which \<open>build_index\<close> was never called, whatever was added to it (nothing
  included), answers every query with the empty list and raises nothing; the same holds of
  every store whose vectorizer or matrix is absent.
\<close>

theorem query_before_build:
  "query L (foldl (\<lambda>kb (t, c, s). add kb t c s) KnowledgeBase_init xs) question top_k = Inr []
   \<and> query L (K\<lparr>vectorizer := None\<rparr>) question top_k = Inr []
   \<and> query L (K\<lparr>tfidf_matrix := None\<rparr>) question top_k = Inr []"
proof -
  have "vectorizer (foldl (\<lambda>kb (t, c, s). add kb t c s)
          (KnowledgeBase_init :: ('a, 'b) KnowledgeBase) xs) = None"
    by (simp add: foldl_add_vectorizer KnowledgeBase_init_def)
  then show ?thesis
    by (simp add: query_def split: option.splits)
qed

section \<open>Persistence\<close>

lemma path_join_inj [simp]: "path_join p a = path_join p b \<longleftrightarrow> a = b"
  by (simp add: path_join_def)

lemma load_save: "load path (save K path fs) = Inr K"
  by (simp add: load_def save_def)

lemma load_missing:
  "fs (path_join path ''tfidf_vectorizer.joblib'') = None
   \<or> fs (path_join path ''tfidf_matrix.joblib'') = None
   \<or> fs (path_join path ''documents.json'') = None \<Longrightarrow> \<exists>ex. load path fs = Inl ex"
  by (auto simp: load_def split: option.splits file_content.splits)

lemma load_deleted:
  "name \<in> {''tfidf_vectorizer.joblib'', ''tfidf_matrix.joblib'', ''documents.json''} \<Longrightarrow>
   load path ((save K path fs)(path_join path name := None))
     = Inl (FileNotFoundError (path_join path name))"
  by (auto simp: load_def save_def)

lemma load_not_found:
  assumes "fs (path_join path ''tfidf_vectorizer.joblib'') = None
           \<or> (\<exists>v. fs (path_join path ''tfidf_vectorizer.joblib'') = Some (JoblibVectorizer v))"
    and "fs (path_join path ''tfidf_matrix.joblib'') = None
           \<or> (\<exists>m. fs (path_join path ''tfidf_matrix.joblib'') = Some (JoblibMatrix m))"
    and "fs (path_join path ''documents.json'') = None
           \<or> (\<exists>docs metas. fs (path_join path ''documents.json'') = Some (JsonDocuments docs metas))"
    and "fs (path_join path ''tfidf_vectorizer.joblib'') = None
         \<or> fs (path_join path ''tfidf_matrix.joblib'') = None
         \<or> fs (path_join path ''documents.json'') = None"
  shows "\<exists>name. load path fs = Inl (FileNotFoundError (path_join path name))"
  using assms by (auto simp: load_def)

text \<open>
  C6. \<open>save\<close> followed by \<open>load\<close> on the same path gives back the store itself, so that every
  query has the same results (texts, metadata, order and scores) as before the save.
  \<open>load\<close> on a directory in which one of the three artifacts is missing returns no store but
  an exception; that exception is the \<open>FileNotFoundError\<close> of a missing file when the
  artifacts that are present hold what \<open>save\<close> writes there, in particular after a \<open>save\<close>
  from which one artifact was deleted.
\<close>

theorem save_load_roundtrip:
  "load path (save K path fs) = Inr K
   \<and> (\<forall>K'. load path (save K path fs) = Inr K' \<longrightarrow>
          query L K' question top_k = query L K question top_k)
   \<and> (fs (path_join path ''tfidf_vectorizer.joblib'') = None
        \<or> fs (path_join path ''tfidf_matrix.joblib'') = None
        \<or> fs (path_join path ''documents.json'') = None \<longrightarrow>
        (\<exists>ex. load path fs = Inl ex)
        \<and> ((fs (path_join path ''tfidf_vectorizer.joblib'') = None
              \<or> (\<exists>v. fs (path_join path ''tfidf_vectorizer.joblib'') = Some (JoblibVectorizer v)))
            \<and> (fs (path_join path ''tfidf_matrix.joblib'') = None
              \<or> (\<exists>m. fs (path_join path ''tfidf_matrix.joblib'') = Some (JoblibMatrix m)))
            \<and> (fs (path_join path ''documents.json'') = None
              \<or> (\<exists>docs metas. fs (path_join path ''documents.json'')
                                   = Some (JsonDocuments docs metas)))
            \<longrightarrow> (\<exists>name. load path fs = Inl (FileNotFoundError (path_join path name)))))
   \<and> (\<forall>name \<in> {''tfidf_vectorizer.joblib'', ''tfidf_matrix.joblib'', ''documents.json''}.
         load path ((save K path fs)(path_join path name := None))
           = Inl (FileNotFoundError (path_join path name)))"
  using load_missing[of fs path] load_deleted[of _ path K fs] load_not_found[of fs path]
  by (simp only: load_save) blast


theorem save_load_roundtrip_witness:
  "load ''kb'' (save ranked_kb ''kb'' Map.empty) = Inr ranked_kb
   \<and> query example_library ranked_kb ''calories'' 8 =
       Inr [\<lparr>res_text = ''cardio'', res_score = 9/10,
             res_metadata = [(''category'', ''general''), (''source'', '''')]\<rparr>,
            \<lparr>res_text = ''strength'', res_score = 8/10,
             res_metadata = [(''category'', ''general''), (''source'', '''')]\<rparr>,
            \<lparr>res_text = ''yoga'', res_score = 7/10,
             res_metadata = [(''category'', ''general''), (''source'', '''')]\<rparr>]
   \<and> (\<exists>ex. load ''kb'' (Map.empty :: (bool, real) filesystem) = Inl ex)
   \<and> load ''kb'' ((save ranked_kb ''kb'' Map.empty)(path_join ''kb'' ''documents.json'' := None))
       = Inl (FileNotFoundError ''kb/documents.json'')"
proof -
  have q: "query example_library ranked_kb ''calories'' 8 =
       Inr [\<lparr>res_text = ''cardio'', res_score = 9/10,
             res_metadata = [(''category'', ''general''), (''source'', '''')]\<rparr>,
            \<lparr>res_text = ''strength'', res_score = 8/10,
             res_metadata = [(''category'', ''general''), (''source'', '''')]\<rparr>,
            \<lparr>res_text = ''yoga'', res_score = 7/10,
             res_metadata = [(''category'', ''general''), (''source'', '''')]\<rparr>]"
    by (simp add: query_def ranked_kb_def add_def KnowledgeBase_init_def example_library_def
      insertion_argsort_def upt_rec py_slice_to_def RELEVANCE_FLOOR_def)
  have n: "''documents.json'' \<in> {''tfidf_vectorizer.joblib'', ''tfidf_matrix.joblib'', ''documents.json''}"
    by simp
  have p: "path_join ''kb'' ''documents.json'' = ''kb/documents.json''"
    by (simp add: path_join_def)
  have e: "(Map.empty :: (bool, real) filesystem) (path_join ''kb'' ''documents.json'') = None"
    by simp
  show ?thesis
    using save_load_roundtrip[of "''kb''" ranked_kb Map.empty example_library "''calories''" 8]
      save_load_roundtrip[of "''kb''" ranked_kb Map.empty example_library "''calories''" 8,
        THEN conjunct2, THEN conjunct2, THEN conjunct2, rule_format, OF n] q e
    by (simp only: p) blast
qed

section \<open>Documents and metadata stay parallel\<close>

lemma collect_results:
  "collect L K scores idx = Inr rs \<Longrightarrow>
   \<forall>r\<in>set rs. \<exists>i. i < length (documents K) \<and> i < length (metadata K)
       \<and> res_text r = documents K ! i \<and> res_metadata r = metadata K ! i"
proof (induction idx arbitrary: rs)
  case Nil
  then show ?case by simp
next
  case (Cons i idx)
  then show ?case
    by (fastforce split: if_splits sum.splits)
qed

lemma query_results:
  "query L K question top_k = Inr rs \<Longrightarrow>
   \<forall>r\<in>set rs. \<exists>i. i < length (documents K) \<and> i < length (metadata K)
       \<and> res_text r = documents K ! i \<and> res_metadata r = metadata K ! i"
  by (auto simp: query_def Let_def split: option.splits sum.splits dest!: collect_results)

lemma load_json:
  "load path fs = Inr K' \<Longrightarrow>
   fs (path_join path ''documents.json'') = Some (JsonDocuments (documents K') (metadata K'))"
  by (auto simp: load_def split: option.splits file_content.splits)

text \<open>
  C10. \<open>add\<close> and \<open>build_index\<close> keep the documents list and the metadata list of equal
  length, and so does \<open>load\<close> of what \<open>save\<close> wrote from such a store (\<open>load\<close> takes both
  lists from the one file \<open>documents.json\<close>); \<open>query\<close> and \<open>save\<close> do not change the store.
  Every result of \<open>query\<close> carries the text and the metadata entry of one and the same
  index.
\<close>

theorem parallel_lists_preserved:
  "(length (documents K) = length (metadata K) \<longrightarrow>
       length (documents (add K t c s)) = length (metadata (add K t c s))
     \<and> length (documents (snd (build_index L K))) = length (metadata (snd (build_index L K)))
     \<and> (\<forall>K'. load path (save K path fs) = Inr K' \<longrightarrow>
            length (documents K') = length (metadata K')))
   \<and> (\<forall>K'. load path fs = Inr K' \<longrightarrow>
          fs (path_join path ''documents.json'')
            = Some (JsonDocuments (documents K') (metadata K')))
   \<and> (\<forall>rs. query L K question top_k = Inr rs \<longrightarrow>
          (\<forall>r\<in>set rs. \<exists>i. i < length (documents K) \<and> i < length (metadata K)
               \<and> res_text r = documents K ! i \<and> res_metadata r = metadata K ! i))"
proof -
  have a: "length (documents (add K t c s)) = length (metadata (add K t c s))"
    if "length (documents K) = length (metadata K)"
    using that by (simp add: add_def)
  have b: "length (documents (snd (build_index L K))) = length (metadata (snd (build_index L K)))"
    if "length (documents K) = length (metadata K)"
    using that by (simp add: build_index_def split: sum.splits prod.splits)
  have c: "\<forall>K'. load path (save K path fs) = Inr K' \<longrightarrow>
            length (documents K') = length (metadata K')"
    if "length (documents K) = length (metadata K)"
    using that by (simp add: load_save)
  show ?thesis
    using a b c load_json[of path fs] query_results[of L K question top_k] by blast
qed

theorem parallel_lists_preserved_witness:
  "length (documents ranked_kb) = length (metadata ranked_kb)
   \<and> length (documents (add ranked_kb ''hiit'' ''general'' ''''))
       = length (metadata (add ranked_kb ''hiit'' ''general'' ''''))
   \<and> length (documents (snd (build_index example_library ranked_kb)))
       = length (metadata (snd (build_index example_library ranked_kb)))
   \<and> load ''kb'' (save ranked_kb ''kb'' Map.empty) = Inr ranked_kb
   \<and> query example_library ranked_kb ''calories'' 1 =
       Inr [\<lparr>res_text = ''cardio'', res_score = 9/10,
             res_metadata = [(''category'', ''general''), (''source'', '''')]\<rparr>]
   \<and> (\<exists>i. i < length (documents ranked_kb) \<and> i < length (metadata ranked_kb)
          \<and> ''cardio'' = documents ranked_kb ! i
          \<and> [(''category'', ''general''), (''source'', '''')] = metadata ranked_kb ! i)"
proof -
  have h: "length (documents ranked_kb) = length (metadata ranked_kb)"
    by (simp add: ranked_kb_def add_def KnowledgeBase_init_def)
  have q: "query example_library ranked_kb ''calories'' 1 =
       Inr [\<lparr>res_text = ''cardio'', res_score = 9/10,
             res_metadata = [(''category'', ''general''), (''source'', '''')]\<rparr>]"
    by (simp add: query_def ranked_kb_def add_def KnowledgeBase_init_def example_library_def
      insertion_argsort_def upt_rec py_slice_to_def RELEVANCE_FLOOR_def)
  have l: "load ''kb'' (save ranked_kb ''kb'' Map.empty) = Inr ranked_kb"
    by (rule load_save)
  note t = parallel_lists_preserved[of ranked_kb "''hiit''" "''general''" "''''" example_library
        "''kb''" Map.empty "''calories''" 1]
  from t q have "\<forall>r\<in>set [\<lparr>res_text = ''cardio'', res_score = 9/10,
             res_metadata = [(''category'', ''general''), (''source'', '''')]\<rparr>].
        \<exists>i. i < length (documents ranked_kb) \<and> i < length (metadata ranked_kb)
           \<and> res_text r = documents ranked_kb ! i \<and> res_metadata r = metadata ranked_kb ! i"
    by blast
  then have r: "\<exists>i. i < length (documents ranked_kb) \<and> i < length (metadata ranked_kb)
          \<and> ''cardio'' = documents ranked_kb ! i
          \<and> [(''category'', ''general''), (''source'', '''')] = metadata ranked_kb ! i"
    by simp
  show ?thesis
    using h q l r t by blast
qed

section \<open>One turn of the chat engine\<close>

lemma py_join_nonempty: "xs \<noteq> [] \<Longrightarrow> hd xs \<noteq> [] \<Longrightarrow> py_join sep xs \<noteq> []"
  by (induction sep xs rule: py_join.induct) auto

lemma retrieve_context_used:
  assumes "retrieve_context L e question top_k = Inr context"
  shows "context \<noteq> [] \<longleftrightarrow> (\<exists>K rs. kb e = Some K \<and> query L K question top_k = Inr rs \<and> rs \<noteq> [])"
proof (cases "kb e")
  case None
  with assms show ?thesis by (simp add: retrieve_context_def)
next
  case (Some K)
  show ?thesis
  proof (cases "query L K question top_k")
    case (Inl ex)
    with Some assms show ?thesis by (simp add: retrieve_context_def)
  next
    case (Inr rs)
    show ?thesis
    proof (cases "rs = []")
      case True
      with Some Inr assms show ?thesis by (simp add: retrieve_context_def)
    next
      case False
      have "py_join (NL @ NL)
              (map (\<lambda>r. ''['' @ (case map_of (res_metadata r) ''category'' of
                                   None \<Rightarrow> ''data'' | Some c \<Rightarrow> c)
                         @ ''] '' @ res_text r) rs) \<noteq> []"
        using False by (intro py_join_nonempty) (simp_all add: hd_map)
      with Some Inr False assms show ?thesis by (auto simp: retrieve_context_def)
    qed
  qed
qed

lemma store_turn_fields [simp]:
  "max_history (store_turn e sid m r) = max_history e"
  "llm (store_turn e sid m r) = llm e"
  "kb (store_turn e sid m r) = kb e"
  by (simp_all add: store_turn_def Let_def)

lemma store_turn_other:
  "sid' \<noteq> sid \<Longrightarrow> conversations (store_turn e sid m r) sid' = conversations e sid'"
  by (simp add: store_turn_def Let_def)

lemma store_turn_same:
  "0 < max_history e \<Longrightarrow>
   conversations (store_turn e sid m r) sid =
     Some (drop (length (case conversations e sid of None \<Rightarrow> [] | Some h \<Rightarrow> h) + 2
                   - nat (2 * max_history e))
             ((case conversations e sid of None \<Rightarrow> [] | Some h \<Rightarrow> h)
              @ [\<lparr>role = ''user'', content = m\<rparr>, \<lparr>role = ''assistant'', content = r\<rparr>]))"
  by (auto simp: store_turn_def Let_def py_slice_from_def nat_diff_distrib' nat_add_distrib
      intro!: arg_cong2[where f = drop])

lemma chat_returns:
  assumes "retrieve_context L e message 6 = Inr context"
    and "generate (requests_post w) (llm e)
           (build_prompt e message context
              (case conversations e sid of None \<Rightarrow> [] | Some h \<Rightarrow> h))
           SYSTEM_PROMPT (7 / 10) 1024 = g"
    and "g = Inr text \<or> g = Inl (ConnectionError text)"
    and "(kb e = None \<and> n = 0) \<or> (\<exists>K rs. kb e = Some K \<and> query L K message 8 = Inr rs \<and> n = length rs)"
  shows "chat L w e message sid =
           (Inr \<lparr>response = text, context_used = (context \<noteq> []), chunks_retrieved = n,
                 inference_ms = py_round L ((perf_counter_end w - perf_counter_start w) * 1000) 1,
                 response_model = model (llm e), response_provider = provider (llm e)\<rparr>,
            store_turn e sid message text)"
  using assms by (auto simp: chat_def Let_def)

lemma chat_engine_cases:
  "snd (chat L w e message sid) = e \<or> (\<exists>r. snd (chat L w e message sid) = store_turn e sid message r)"
  by (auto simp: chat_def Let_def split: sum.splits option.splits exn.splits)

lemma stream_chat_engine_cases:
  "snd (snd (stream_chat L jl w e message sid)) = e
   \<or> (\<exists>r. snd (snd (stream_chat L jl w e message sid)) = store_turn e sid message r)"
  by (auto simp: stream_chat_def Let_def split: sum.splits option.splits exn.splits prod.splits)


lemma ollama_generate_down:
  assumes "\<forall>req. \<exists>m. post req = PostRaises (RequestsConnectionError m)"
  shows "ollama_generate post c prompt system temperature = Inl (ConnectionError OLLAMA_NOT_RUNNING)"
proof -
  obtain m where "post (OllamaGenerateRequest (base_url c @ ''/api/generate'') (model c)
                   prompt system False temperature 1024) = PostRaises (RequestsConnectionError m)"
    using assms by blast
  then show ?thesis by (simp add: ollama_generate_def)
qed

lemma ollama_generate_reply:
  assumes "\<forall>url mdl p s t n. post (OllamaGenerateRequest url mdl p s False t n) = PostReturns r1"
    and "raise_for_status r1 = None" and "json r1 = Inr data" and "get_response data = Some out"
  shows "ollama_generate post c prompt system temperature = Inr (strip out)"
  using assms by (simp add: ollama_generate_def)

lemma ollama_stream_reply:
  assumes "\<forall>url mdl p s t n. post (OllamaGenerateRequest url mdl p s True t n) = PostReturns r2"
    and "raise_for_status r2 = None"
    and "ollama_lines jl (iter_lines r2) (iter_lines_error r2) = (tokens, None)"
  shows "ollama_stream jl post c prompt system temperature = (tokens, None)"
  using assms by (simp add: ollama_stream_def)

lemma openai_generate_reply:
  assumes "\<forall>url auth mdl msgs t n.
             post (ChatCompletionsRequest url auth mdl msgs t n False) = PostReturns r1"
    and "raise_for_status r1 = None" and "json r1 = Inr data" and "message_content data = Inr out"
  shows "openai_generate post c prompt system temperature max_tokens = Inr (strip out)"
  using assms by (simp add: openai_generate_def)

lemma openai_stream_reply:
  assumes "\<forall>url auth mdl msgs t n.
             post (ChatCompletionsRequest url auth mdl msgs t n True) = PostReturns r2"
    and "raise_for_status r2 = None"
    and "openai_lines jl (iter_lines r2) (iter_lines_error r2) = (tokens, None)"
  shows "openai_stream jl post c prompt system temperature = (tokens, None)"
  using assms by (simp add: openai_stream_def)

lemma ollama_stream_down:
  assumes "\<forall>req. \<exists>m. post req = PostRaises (RequestsConnectionError m)"
  shows "ollama_stream jl post c prompt system temperature = ([OLLAMA_STREAM_ERROR], None)"
proof -
  obtain m where "post (OllamaGenerateRequest (base_url c @ ''/api/generate'') (model c)
                   prompt system True temperature 1024) = PostRaises (RequestsConnectionError m)"
    using assms by blast
  then show ?thesis by (simp add: ollama_stream_def)
qed

lemma ranked_query6:
  "query example_library ranked_kb ''calories'' 6 =
       Inr [\<lparr>res_text = ''cardio'', res_score = 9/10,
             res_metadata = [(''category'', ''general''), (''source'', '''')]\<rparr>,
            \<lparr>res_text = ''strength'', res_score = 8/10,
             res_metadata = [(''category'', ''general''), (''source'', '''')]\<rparr>,
            \<lparr>res_text = ''yoga'', res_score = 7/10,
             res_metadata = [(''category'', ''general''), (''source'', '''')]\<rparr>]"
  by (simp add: query_def ranked_kb_def add_def KnowledgeBase_init_def example_library_def
      insertion_argsort_def upt_rec py_slice_to_def RELEVANCE_FLOOR_def)

lemma ranked_query8:
  "query example_library ranked_kb ''calories'' 8 =
       Inr [\<lparr>res_text = ''cardio'', res_score = 9/10,
             res_metadata = [(''category'', ''general''), (''source'', '''')]\<rparr>,
            \<lparr>res_text = ''strength'', res_score = 8/10,
             res_metadata = [(''category'', ''general''), (''source'', '''')]\<rparr>,
            \<lparr>res_text = ''yoga'', res_score = 7/10,
             res_metadata = [(''category'', ''general''), (''source'', '''')]\<rparr>]"
  by (simp add: query_def ranked_kb_def add_def KnowledgeBase_init_def example_library_def
      insertion_argsort_def upt_rec py_slice_to_def RELEVANCE_FLOOR_def)

lemma session_ok_turn:
  assumes "0 < mh" and "session_ok mh old"
  shows "session_ok mh (drop (length old + 2 - nat (2 * mh))
           (old @ [\<lparr>role = ''user'', content = m\<rparr>, \<lparr>role = ''assistant'', content = r\<rparr>]))"
proof -
  define xs where
    "xs = old @ [\<lparr>role = ''user'', content = m\<rparr>, \<lparr>role = ''assistant'', content = r\<rparr>]"
  define d where "d = length old + 2 - nat (2 * mh)"
  have ev_old: "even (length old)" and le_old: "int (length old) \<le> 2 * mh"
    and alt_old: "\<And>i. i < length old \<Longrightarrow> role (old ! i) = (if even i then ''user'' else ''assistant'')"
    using assms(2) by (simp_all add: session_ok_def)
  have ev_mh: "even (nat (2 * mh))" using assms(1) by (simp add: nat_mult_distrib)
  have len_xs: "length xs = length old + 2" by (simp add: xs_def)
  have alt_xs: "role (xs ! i) = (if even i then ''user'' else ''assistant'')"
    if "i < length xs" for i
  proof (cases "i < length old")
    case True
    then show ?thesis using alt_old by (simp add: xs_def nth_append)
  next
    case False
    then have "i = length old \<or> i = Suc (length old)" using that by (auto simp: len_xs)
    then show ?thesis using ev_old by (auto simp: xs_def nth_append)
  qed
  have d_le: "d \<le> length xs" by (simp add: d_def len_xs)
  have len: "length (drop d xs) = (if length old + 2 \<le> nat (2 * mh) then length old + 2
                                    else nat (2 * mh))"
    by (auto simp: d_def len_xs)
  have ev_d: "even d"
  proof (cases "length old + 2 \<le> nat (2 * mh)")
    case True
    then show ?thesis by (simp add: d_def)
  next
    case False
    then show ?thesis using ev_old ev_mh by (simp add: d_def)
  qed
  have a: "even (length (drop d xs))"
    using ev_old ev_mh by (simp only: len split: if_splits) simp
  have b: "int (length (drop d xs)) \<le> 2 * mh"
    using assms(1) by (simp only: len split: if_splits) (simp, linarith)
  have c: "role (drop d xs ! i) = (if even i then ''user'' else ''assistant'')"
    if "i < length (drop d xs)" for i
  proof -
    have "d + i < length xs" using that by simp
    then have "role (xs ! (d + i)) = (if even (d + i) then ''user'' else ''assistant'')"
      by (rule alt_xs)
    moreover have "drop d xs ! i = xs ! (d + i)" using d_le by (rule nth_drop)
    ultimately show ?thesis using ev_d by simp
  qed
  show ?thesis
    unfolding session_ok_def xs_def[symmetric] d_def[symmetric] using a b c by blast
qed

lemma session_ok_Nil: "0 \<le> mh \<Longrightarrow> session_ok mh []"
  by (simp add: session_ok_def)

lemma engine_ok_init: "engine_ok (ChatEngine_init l k)"
  by (simp add: engine_ok_def ChatEngine_init_def)

lemma engine_ok_store_turn:
  assumes "engine_ok e"
  shows "engine_ok (store_turn e sid m r)"
proof -
  have mh: "max_history e = 10" and pos: "0 < max_history e"
    using assms by (simp_all add: engine_ok_def)
  have old: "session_ok 10 (case conversations e sid of None \<Rightarrow> [] | Some h \<Rightarrow> h)"
    using assms by (auto simp: engine_ok_def session_ok_Nil split: option.splits)
  have same: "session_ok 10 msgs" if "conversations (store_turn e sid m r) sid = Some msgs" for msgs
    using that session_ok_turn[OF _ old, of m r] by (simp add: store_turn_same[OF pos] mh)
  have other: "session_ok 10 msgs"
    if "conversations (store_turn e sid m r) sid' = Some msgs" "sid' \<noteq> sid" for sid' msgs
    using that assms by (simp add: store_turn_other engine_ok_def)
  show ?thesis
    unfolding engine_ok_def using mh same other by (metis store_turn_fields(1))
qed

lemma engine_ok_clear: "engine_ok e \<Longrightarrow> engine_ok (clear_history e sid)"
  by (simp add: engine_ok_def clear_history_def)

lemma engine_ok_step: "engine_ok e \<Longrightarrow> engine_ok (step L jl e c)"
proof (cases c)
  case (Chat w message sid)
  assume "engine_ok e"
  then show ?thesis
    using chat_engine_cases[of L w e message sid] Chat
    by (auto simp: engine_ok_store_turn)
next
  case (StreamChat w message sid)
  assume "engine_ok e"
  then show ?thesis
    using stream_chat_engine_cases[of L jl w e message sid] StreamChat
    by (auto simp: engine_ok_store_turn)
next
  case (ClearHistory sid)
  assume "engine_ok e"
  then show ?thesis using ClearHistory by (simp add: engine_ok_clear)
qed

lemma engine_ok_run: "engine_ok e \<Longrightarrow> engine_ok (run L jl e calls)"
  unfolding run_def by (induction calls arbitrary: e) (simp_all add: engine_ok_step)

lemma chat_completed:
  "chat L w e message sid = (Inr r, e') \<Longrightarrow> e' = store_turn e sid message (response r)"
  by (auto simp: chat_def Let_def split: sum.splits option.splits exn.splits)

lemma stream_chat_completed:
  "stream_chat L jl w e message sid = (evs, None, e') \<Longrightarrow>
   \<exists>texts. evs = map TokenEvent texts
              @ [DoneEvent (py_round L ((perf_counter_end w - perf_counter_start w) * 1000) 1)
                   (model (llm e))]
         \<and> e' = store_turn e sid message (concat texts)"
  by (auto simp: stream_chat_def Let_def split: sum.splits option.splits exn.splits prod.splits)


lemma drop_keeps_last2:
  "d \<le> length old \<Longrightarrow> drop d (old @ [u, a]) = drop d old @ [u, a]"
  by simp

section \<open>A backend that cannot be reached\<close>

text \<open>
  C2, amended. When the language-model backend is unreachable (the connection fails on the
  local-server provider) and the knowledge-base queries raise nothing, \<open>chat\<close> raises
  nothing either: it returns a well-formed response object whose response text is the
  remediation message of the typed connectivity failure, with \<open>context_used\<close> true exactly
  when retrieval found documents, and it stores the turn with that text.
\<close>

theorem chat_backend_unreachable:
  assumes "provider (llm e) = ''ollama''"
    and "\<forall>req. \<exists>m. requests_post w req = PostRaises (RequestsConnectionError m)"
    and "retrieve_context L e message 6 = Inr context"
    and "(kb e = None \<and> n = 0)
         \<or> (\<exists>K rs. kb e = Some K \<and> query L K message 8 = Inr rs \<and> n = length rs)"
  shows "\<exists>r. chat L w e message sid = (Inr r, store_turn e sid message OLLAMA_NOT_RUNNING)
           \<and> response r = OLLAMA_NOT_RUNNING
           \<and> context_used r = (context \<noteq> [])
           \<and> context_used r
               = (\<exists>K rs. kb e = Some K \<and> query L K message 6 = Inr rs \<and> rs \<noteq> [])
           \<and> chunks_retrieved r = n
           \<and> response_model r = model (llm e)
           \<and> response_provider r = provider (llm e)"
proof -
  have g: "generate (requests_post w) (llm e)
           (build_prompt e message context
              (case conversations e sid of None \<Rightarrow> [] | Some h \<Rightarrow> h))
           SYSTEM_PROMPT (7 / 10) 1024 = Inl (ConnectionError OLLAMA_NOT_RUNNING)"
    using assms(1) ollama_generate_down[OF assms(2)] by (simp add: generate_def)
  have u: "(context \<noteq> [])
             = (\<exists>K rs. kb e = Some K \<and> query L K message 6 = Inr rs \<and> rs \<noteq> [])"
    by (rule retrieve_context_used[OF assms(3)])
  have "chat L w e message sid =
           (Inr \<lparr>response = OLLAMA_NOT_RUNNING, context_used = (context \<noteq> []),
                 chunks_retrieved = n,
                 inference_ms = py_round L ((perf_counter_end w - perf_counter_start w) * 1000) 1,
                 response_model = model (llm e), response_provider = provider (llm e)\<rparr>,
            store_turn e sid message OLLAMA_NOT_RUNNING)"
    by (rule chat_returns[OF assms(3) g _ assms(4)]) simp
  then show ?thesis using u by simp
qed

theorem chat_backend_unreachable_witness:
  "provider (llm (ChatEngine_init ollama_client (Some ranked_kb))) = ''ollama''
   \<and> (\<forall>req. \<exists>m. requests_post backend_down req = PostRaises (RequestsConnectionError m))
   \<and> retrieve_context example_library (ChatEngine_init ollama_client (Some ranked_kb))
        ''calories'' 6
       = Inr (''[general] cardio'' @ NL @ NL @ ''[general] strength'' @ NL @ NL @ ''[general] yoga'')
   \<and> (\<exists>r. chat example_library backend_down (ChatEngine_init ollama_client (Some ranked_kb))
              ''calories'' ''s1''
            = (Inr r, store_turn (ChatEngine_init ollama_client (Some ranked_kb)) ''s1''
                        ''calories'' OLLAMA_NOT_RUNNING)
          \<and> response r = OLLAMA_NOT_RUNNING
          \<and> context_used r = True
          \<and> chunks_retrieved r = 3)"
proof -
  let ?e = "ChatEngine_init ollama_client (Some ranked_kb) :: (bool, real) ChatEngine"
  have h1: "provider (llm ?e) = ''ollama''"
    by (simp add: ChatEngine_init_def fresh_engine_def ollama_client_def)
  have h2: "\<forall>req. \<exists>m. requests_post backend_down req = PostRaises (RequestsConnectionError m)"
    by (simp add: backend_down_def)
  have h3: "retrieve_context example_library ?e ''calories'' 6
       = Inr (''[general] cardio'' @ NL @ NL @ ''[general] strength'' @ NL @ NL @ ''[general] yoga'')"
    by (simp add: retrieve_context_def ChatEngine_init_def fresh_engine_def ranked_query6 NL_def)
  have h4: "(kb ?e = None \<and> (3::nat) = 0)
         \<or> (\<exists>K rs. kb ?e = Some K \<and> query example_library K ''calories'' 8 = Inr rs
               \<and> 3 = length rs)"
    by (simp add: ChatEngine_init_def fresh_engine_def ranked_query8)
  have ne: "(''[general] cardio'' @ NL @ NL @ ''[general] strength'' @ NL @ NL @ ''[general] yoga''
             \<noteq> []) = True"
    by simp
  show ?thesis
    using h1 h2 h3 chat_backend_unreachable[OF h1 h2 h3 h4, of "''s1''"]
    unfolding ne by blast
qed

text \<open>
  C2 as stated fails: \<open>chat\<close> catches the builtin \<open>ConnectionError\<close> only. When the local
  server answers with status 500, \<open>raise_for_status\<close> raises an \<open>HTTPError\<close>, which leaves
  \<open>chat\<close>; no response object is returned and the session is not written.
\<close>

theorem chat_backend_unreachable_counterexample:
  "chat example_library backend_http_500 fresh_engine ''hello'' ''s1''
     = (Inl (HTTPError ''500 Server Error''), fresh_engine)"
  by (simp add: chat_def retrieve_context_def ChatEngine_init_def fresh_engine_def generate_def ollama_client_def
      ollama_generate_def backend_http_500_def)

section \<open>The count of retrieved chunks\<close>

text \<open>
  C7 fails on the code. The retrieval step queries with \<open>top_k = 6\<close>, but the field
  \<open>chunks_retrieved\<close> is the length of a second query, made with the default \<open>top_k = 8\<close>
  of \<open>query\<close>. On a store of seven documents that all clear the floor the retrieval step
  finds six and the response reports seven.
\<close>

theorem chunks_retrieved_counts_top_8:
  "map_sum id length (query example_library seven_kb ''plan'' 6) = Inr 6
   \<and> map_sum id chunks_retrieved
       (fst (chat example_library (backend_replying ''Train three times a week.'' [])
               (ChatEngine_init ollama_client (Some seven_kb)) ''plan'' ''s1'')) = Inr 7"
  by (simp add: chat_def retrieve_context_def ChatEngine_init_def fresh_engine_def generate_def ollama_client_def
      ollama_generate_def backend_replying_def reply_def reply_json_def query_def seven_kb_def example_library_def
      insertion_argsort_def upt_rec py_slice_to_def RELEVANCE_FLOOR_def Let_def)


section \<open>Session memory\<close>

text \<open>
  C3. After any history of \<open>chat\<close>, \<open>stream_chat\<close> and \<open>clear_history\<close> calls on a newly
  constructed engine, whatever the backend did in each of them, every session holds an even
  number of messages, user and assistant alternating, and at most \<open>2 * max_history\<close> of
  them (\<open>max_history\<close> is 10). A completed turn leaves the session as the old messages
  followed by the new user and assistant messages, less as many of the oldest as exceed 20.
\<close>

theorem session_memory_bounded:
  "(let e = run L jl (ChatEngine_init l k) calls in
      max_history e = 10
      \<and> (\<forall>sid msgs. conversations e sid = Some msgs \<longrightarrow>
             even (length msgs) \<and> int (length msgs) \<le> 2 * max_history e
             \<and> (\<forall>i<length msgs. role (msgs ! i) = (if even i then ''user'' else ''assistant'')))
      \<and> (\<forall>w message sid r e'. chat L w e message sid = (Inr r, e') \<longrightarrow>
             conversations e' sid =
               Some (drop (length (case conversations e sid of None \<Rightarrow> [] | Some h \<Rightarrow> h) + 2 - 20)
                       ((case conversations e sid of None \<Rightarrow> [] | Some h \<Rightarrow> h)
                        @ [\<lparr>role = ''user'', content = message\<rparr>,
                           \<lparr>role = ''assistant'', content = response r\<rparr>])))
      \<and> (\<forall>w message sid evs e'. stream_chat L jl w e message sid = (evs, None, e') \<longrightarrow>
             (\<exists>texts. conversations e' sid =
                   Some (drop (length (case conversations e sid of None \<Rightarrow> [] | Some h \<Rightarrow> h) + 2 - 20)
                           ((case conversations e sid of None \<Rightarrow> [] | Some h \<Rightarrow> h)
                            @ [\<lparr>role = ''user'', content = message\<rparr>,
                               \<lparr>role = ''assistant'', content = concat texts\<rparr>])))))"
proof -
  define e where "e = run L jl (ChatEngine_init l k) calls"
  have ok: "engine_ok e"
    unfolding e_def by (intro engine_ok_run engine_ok_init)
  then have mh: "max_history e = 10" and pos: "0 < max_history e"
    by (simp_all add: engine_ok_def)
  have a: "even (length msgs) \<and> int (length msgs) \<le> 2 * max_history e
             \<and> (\<forall>i<length msgs. role (msgs ! i) = (if even i then ''user'' else ''assistant''))"
    if "conversations e sid = Some msgs" for sid msgs
    using ok that unfolding engine_ok_def session_ok_def by (simp add: mh)
  have b: "conversations e' sid =
               Some (drop (length (case conversations e sid of None \<Rightarrow> [] | Some h \<Rightarrow> h) + 2 - 20)
                       ((case conversations e sid of None \<Rightarrow> [] | Some h \<Rightarrow> h)
                        @ [\<lparr>role = ''user'', content = message\<rparr>,
                           \<lparr>role = ''assistant'', content = response r\<rparr>]))"
    if "chat L w e message sid = (Inr r, e')" for w message sid r e'
    using chat_completed[OF that] store_turn_same[OF pos, of sid message "response r"]
    by (simp add: mh)
  have c: "\<exists>texts. conversations e' sid =
                   Some (drop (length (case conversations e sid of None \<Rightarrow> [] | Some h \<Rightarrow> h) + 2 - 20)
                           ((case conversations e sid of None \<Rightarrow> [] | Some h \<Rightarrow> h)
                            @ [\<lparr>role = ''user'', content = message\<rparr>,
                               \<lparr>role = ''assistant'', content = concat texts\<rparr>]))"
    if sc: "stream_chat L jl w e message sid = (evs, None, e')" for w message sid evs e'
  proof -
    obtain texts where t: "evs = map TokenEvent texts
              @ [DoneEvent (py_round L ((perf_counter_end w - perf_counter_start w) * 1000) 1)
                   (model (llm e))]"
         "e' = store_turn e sid message (concat texts)"
      using stream_chat_completed[OF sc] by blast
    have "conversations e' sid =
                   Some (drop (length (case conversations e sid of None \<Rightarrow> [] | Some h \<Rightarrow> h) + 2 - 20)
                           ((case conversations e sid of None \<Rightarrow> [] | Some h \<Rightarrow> h)
                            @ [\<lparr>role = ''user'', content = message\<rparr>,
                               \<lparr>role = ''assistant'', content = concat texts\<rparr>]))"
      using t(2) store_turn_same[OF pos, of sid message "concat texts"] by (simp add: mh)
    then show ?thesis by blast
  qed
  show ?thesis
    unfolding Let_def e_def[symmetric] using mh a b c by blast
qed

lemma eleven_turns_memory:
  "conversations (run example_library example_json_loads
       fresh_engine
       (replicate 11 (Chat backend_down ''hi'' ''s1''))) ''s1''
   = Some (concat (replicate 10 [\<lparr>role = ''user'', content = ''hi''\<rparr>,
                                  \<lparr>role = ''assistant'', content = OLLAMA_NOT_RUNNING\<rparr>]))"
  by (simp add: run_def numeral_eq_Suc chat_def retrieve_context_def ChatEngine_init_def fresh_engine_def
     generate_def ollama_generate_def ollama_client_def backend_down_def store_turn_def
     py_slice_from_def Let_def)


theorem session_memory_bounded_witness:
  "conversations (run example_library example_json_loads fresh_engine
       (replicate 11 (Chat backend_down ''hi'' ''s1''))) ''s1''
     = Some (concat (replicate 10 [\<lparr>role = ''user'', content = ''hi''\<rparr>,
                                    \<lparr>role = ''assistant'', content = OLLAMA_NOT_RUNNING\<rparr>]))
   \<and> max_history (run example_library example_json_loads fresh_engine
       (replicate 11 (Chat backend_down ''hi'' ''s1''))) = 10
   \<and> even (length (concat (replicate 10 [\<lparr>role = ''user'', content = ''hi''\<rparr>,
                                    \<lparr>role = ''assistant'', content = OLLAMA_NOT_RUNNING\<rparr>])))
   \<and> int (length (concat (replicate 10 [\<lparr>role = ''user'', content = ''hi''\<rparr>,
                                    \<lparr>role = ''assistant'', content = OLLAMA_NOT_RUNNING\<rparr>])))
       \<le> 2 * max_history (run example_library example_json_loads
             fresh_engine (replicate 11 (Chat backend_down ''hi'' ''s1'')))"
  using session_memory_bounded[of example_library example_json_loads ollama_client None
      "replicate 11 (Chat backend_down ''hi'' ''s1'')", folded fresh_engine_def] eleven_turns_memory
  unfolding Let_def by blast

section \<open>The event sequence of a streamed turn\<close>

text \<open>
  C4, amended. When retrieval raises nothing and the token stream of the client ends
  without an exception or with the builtin \<open>ConnectionError\<close>, the events of \<open>stream_chat\<close>
  are the token events in the order of arrival, then in the second case one event with the
  text of the error, then exactly one completion event with the elapsed time and the model;
  nothing is raised, and the session ends with the user message and the assistant message
  whose content is the concatenation of the yielded texts. (On the local-server provider a
  failed connection is such a stream: its tokens end with the one error text.)
\<close>

theorem stream_chat_events:
  assumes "0 < max_history e"
    and "retrieve_context L e message 6 = Inr context"
    and "stream jl (requests_post w) (llm e)
           (build_prompt e message context
              (case conversations e sid of None \<Rightarrow> [] | Some h \<Rightarrow> h))
           SYSTEM_PROMPT (7 / 10) = (tokens, err)"
    and "(err = None \<and> texts = tokens) \<or> (\<exists>m. err = Some (ConnectionError m) \<and> texts = tokens @ [m])"
  shows "\<exists>e' older.
           stream_chat L jl w e message sid =
             (map TokenEvent texts
                @ [DoneEvent (py_round L ((perf_counter_end w - perf_counter_start w) * 1000) 1)
                     (model (llm e))],
              None, e')
         \<and> conversations e' sid =
             Some (older @ [\<lparr>role = ''user'', content = message\<rparr>,
                           \<lparr>role = ''assistant'', content = concat texts\<rparr>])"
proof -
  define old where "old = (case conversations e sid of None \<Rightarrow> [] | Some h \<Rightarrow> h)"
  have s: "stream_chat L jl w e message sid =
             (map TokenEvent texts
                @ [DoneEvent (py_round L ((perf_counter_end w - perf_counter_start w) * 1000) 1)
                     (model (llm e))],
              None, store_turn e sid message (concat texts))"
    using assms(2,3,4) by (auto simp: stream_chat_def Let_def)
  have "nat (2 * max_history e) \<ge> 2" using assms(1) by simp
  then have "length old + 2 - nat (2 * max_history e) \<le> length old" by simp
  then have "conversations (store_turn e sid message (concat texts)) sid =
        Some (drop (length old + 2 - nat (2 * max_history e)) old
              @ [\<lparr>role = ''user'', content = message\<rparr>,
                 \<lparr>role = ''assistant'', content = concat texts\<rparr>])"
    unfolding old_def using store_turn_same[OF assms(1), of sid message "concat texts"]
    by (simp only: drop_keeps_last2)
  with s show ?thesis by blast
qed

lemma great_workout_stream:
  "stream example_json_loads
     (requests_post (backend_replying ''Great workout!''
                       [''T:Great'', ''T: workout'', '''', ''T:!'', ''D'', ''T:late'']))
     ollama_client prompt system temperature
   = ([''Great'', '' workout'', ''!''], None)"
  by (simp add: stream_def ollama_client_def ollama_stream_def backend_replying_def reply_def
      example_json_loads_def startswith_def)

lemma backend_down_stream:
  "stream example_json_loads (requests_post backend_down) ollama_client prompt system temperature
   = ([OLLAMA_STREAM_ERROR], None)"
  by (simp add: stream_def ollama_client_def ollama_stream_down backend_down_def)

theorem stream_chat_events_witness:
  "0 < max_history fresh_engine
   \<and> retrieve_context example_library fresh_engine ''how was it'' 6 = Inr []
   \<and> (\<exists>e' older.
         stream_chat example_library example_json_loads
           (backend_replying ''Great workout!''
              [''T:Great'', ''T: workout'', '''', ''T:!'', ''D'', ''T:late''])
           fresh_engine ''how was it'' ''s1''
         = ([TokenEvent ''Great'', TokenEvent '' workout'', TokenEvent ''!'',
             DoneEvent 250 ''llama3.2:3b''], None, e')
       \<and> conversations e' ''s1'' =
           Some (older @ [\<lparr>role = ''user'', content = ''how was it''\<rparr>,
                         \<lparr>role = ''assistant'', content = ''Great workout!''\<rparr>]))
   \<and> (\<exists>e' older.
         stream_chat example_library example_json_loads backend_down
           fresh_engine ''how was it'' ''s1''
         = ([TokenEvent OLLAMA_STREAM_ERROR, DoneEvent 250 ''llama3.2:3b''], None, e')
       \<and> conversations e' ''s1'' =
           Some (older @ [\<lparr>role = ''user'', content = ''how was it''\<rparr>,
                         \<lparr>role = ''assistant'', content = OLLAMA_STREAM_ERROR\<rparr>]))"
proof -
  let ?w = "backend_replying ''Great workout!''
              [''T:Great'', ''T: workout'', '''', ''T:!'', ''D'', ''T:late'']"
  have h1: "0 < max_history fresh_engine"
    by (simp add: ChatEngine_init_def fresh_engine_def)
  have h2: "retrieve_context example_library fresh_engine ''how was it'' 6 = Inr []"
    by (simp add: retrieve_context_def ChatEngine_init_def fresh_engine_def)
  have h3: "stream example_json_loads (requests_post ?w) (llm fresh_engine)
           (build_prompt fresh_engine ''how was it'' []
              (case conversations fresh_engine ''s1'' of None \<Rightarrow> [] | Some h \<Rightarrow> h))
           SYSTEM_PROMPT (7 / 10) = ([''Great'', '' workout'', ''!''], None)"
    by (simp add: ChatEngine_init_def fresh_engine_def great_workout_stream)
  have h4: "(None = (None :: exn option)
              \<and> [''Great'', '' workout'', ''!''] = [''Great'', '' workout'', ''!''])
     \<or> (\<exists>m. None = Some (ConnectionError m)
            \<and> [''Great'', '' workout'', ''!''] = [''Great'', '' workout'', ''!''] @ [m])"
    by simp
  have ev: "map TokenEvent [''Great'', '' workout'', ''!'']
              @ [DoneEvent (py_round example_library
                              ((perf_counter_end ?w - perf_counter_start ?w) * 1000) 1)
                   (model (llm fresh_engine))]
            = [TokenEvent ''Great'', TokenEvent '' workout'', TokenEvent ''!'',
               DoneEvent 250 ''llama3.2:3b'']"
    by (simp add: example_library_def backend_replying_def ChatEngine_init_def fresh_engine_def
        ollama_client_def)
  have cc: "concat [''Great'', '' workout'', ''!''] = ''Great workout!''" by simp
  have d3: "stream example_json_loads (requests_post backend_down) (llm fresh_engine)
           (build_prompt fresh_engine ''how was it'' []
              (case conversations fresh_engine ''s1'' of None \<Rightarrow> [] | Some h \<Rightarrow> h))
           SYSTEM_PROMPT (7 / 10) = ([OLLAMA_STREAM_ERROR], None)"
    by (simp add: ChatEngine_init_def fresh_engine_def backend_down_stream)
  have d4: "(None = (None :: exn option) \<and> [OLLAMA_STREAM_ERROR] = [OLLAMA_STREAM_ERROR])
     \<or> (\<exists>m. None = Some (ConnectionError m)
            \<and> [OLLAMA_STREAM_ERROR] = [OLLAMA_STREAM_ERROR] @ [m])"
    by simp
  have dv: "map TokenEvent [OLLAMA_STREAM_ERROR]
              @ [DoneEvent (py_round example_library
                              ((perf_counter_end backend_down - perf_counter_start backend_down)
                               * 1000) 1)
                   (model (llm fresh_engine))]
            = [TokenEvent OLLAMA_STREAM_ERROR, DoneEvent 250 ''llama3.2:3b'']"
    by (simp add: example_library_def backend_down_def ChatEngine_init_def fresh_engine_def
        ollama_client_def)
  have dc: "concat [OLLAMA_STREAM_ERROR] = OLLAMA_STREAM_ERROR" by simp
  show ?thesis
    using h1 h2 stream_chat_events[OF h1 h2 h3 h4, unfolded ev cc]
      stream_chat_events[OF h1 h2 d3 d4, unfolded dv dc]
    by blast
qed

text \<open>
  C4 as stated fails: when the local server answers the streaming request with status 500,
  the \<open>HTTPError\<close> of \<open>raise_for_status\<close> passes through \<open>ollama_stream\<close> and \<open>stream_chat\<close>.
  The generator ends with that exception, no completion event is yielded and the session
  is not written.
\<close>

theorem stream_chat_events_counterexample:
  "stream_chat example_library example_json_loads backend_http_500
     fresh_engine ''hello'' ''s1''
   = ([], Some (HTTPError ''500 Server Error''), fresh_engine)"
  by (simp add: stream_chat_def retrieve_context_def ChatEngine_init_def fresh_engine_def stream_def
      ollama_client_def ollama_stream_def backend_http_500_def)

section \<open>Blocking and streamed turns compared\<close>

text \<open>\<open>strip\<close> on three texts: nothing to remove, a trailing space, a trailing U+00A0.\<close>

lemma strip_plain: "strip ''Great workout!'' = ''Great workout!''"
  by code_simp

lemma strip_trailing_space: "strip ''Great workout! '' = ''Great workout!''"
  by code_simp

lemma strip_no_break_space: "strip (''Great workout!'' @ [CHR 0xC2, CHR 0xA0]) = ''Great workout!''"
  by code_simp

text \<open>
  C5, amended. With knowledge-base queries that raise nothing and a backend that answers
  every blocking request with the text \<open>out\<close> and every streaming request with lines whose
  tokens concatenate to \<open>out\<close> (on either provider): the response text of \<open>chat\<close> is the
  concatenation of the streamed tokens with leading and trailing white space removed, and
  when that concatenation has no such white space the two calls give the same text and
  leave the same engine, session memory included.
\<close>

theorem chat_stream_chat_agree:
  assumes "retrieve_context L e message 6 = Inr context"
    and "kb e = None \<or> (\<exists>K rs. kb e = Some K \<and> query L K message 8 = Inr rs)"
    and "\<forall>url mdl p s t n.
           requests_post w (OllamaGenerateRequest url mdl p s False t n) = PostReturns r1"
    and "\<forall>url auth mdl msgs t n.
           requests_post w (ChatCompletionsRequest url auth mdl msgs t n False) = PostReturns r1"
    and "\<forall>url mdl p s t n.
           requests_post w (OllamaGenerateRequest url mdl p s True t n) = PostReturns r2"
    and "\<forall>url auth mdl msgs t n.
           requests_post w (ChatCompletionsRequest url auth mdl msgs t n True) = PostReturns r2"
    and "raise_for_status r1 = None" and "json r1 = Inr data" and "raise_for_status r2 = None"
    and "(provider (llm e) = ''ollama'' \<and> get_response data = Some out
            \<and> ollama_lines jl (iter_lines r2) (iter_lines_error r2) = (tokens, None))
         \<or> (provider (llm e) \<noteq> ''ollama'' \<and> message_content data = Inr out
            \<and> openai_lines jl (iter_lines r2) (iter_lines_error r2) = (tokens, None))"
    and "concat tokens = out"
  shows "\<exists>r final.
           chat L w e message sid = (Inr r, store_turn e sid message (strip (concat tokens)))
         \<and> response r = strip (concat tokens)
         \<and> stream_chat L jl w e message sid
             = (map TokenEvent tokens @ [final], None, store_turn e sid message (concat tokens))
         \<and> (strip (concat tokens) = concat tokens \<longrightarrow>
               response r = concat tokens
               \<and> snd (chat L w e message sid) = snd (snd (stream_chat L jl w e message sid)))"
proof -
  define old where "old = (case conversations e sid of None \<Rightarrow> [] | Some h \<Rightarrow> h)"
  have g: "generate (requests_post w) (llm e) (build_prompt e message context old)
             SYSTEM_PROMPT (7 / 10) 1024 = Inr (strip out)"
    using assms(10)
      ollama_generate_reply[OF assms(3) assms(7) assms(8)]
      openai_generate_reply[OF assms(4) assms(7) assms(8)]
    by (auto simp: generate_def)
  have s: "stream jl (requests_post w) (llm e) (build_prompt e message context old)
             SYSTEM_PROMPT (7 / 10) = (tokens, None)"
    using assms(10)
      ollama_stream_reply[OF assms(5) assms(9)]
      openai_stream_reply[OF assms(6) assms(9)]
    by (auto simp: stream_def)
  obtain n where n: "(kb e = None \<and> n = 0)
      \<or> (\<exists>K rs. kb e = Some K \<and> query L K message 8 = Inr rs \<and> n = length rs)"
    using assms(2) by auto
  have c: "chat L w e message sid =
           (Inr \<lparr>response = strip out, context_used = (context \<noteq> []), chunks_retrieved = n,
                 inference_ms = py_round L ((perf_counter_end w - perf_counter_start w) * 1000) 1,
                 response_model = model (llm e), response_provider = provider (llm e)\<rparr>,
            store_turn e sid message (strip out))"
    by (rule chat_returns[OF assms(1) g[unfolded old_def] _ n]) simp
  have t: "stream_chat L jl w e message sid =
             (map TokenEvent tokens
                @ [DoneEvent (py_round L ((perf_counter_end w - perf_counter_start w) * 1000) 1)
                     (model (llm e))],
              None, store_turn e sid message (concat tokens))"
    using assms(1) s[unfolded old_def] by (simp add: stream_chat_def Let_def)
  show ?thesis
    using c t assms(11) by auto
qed


theorem chat_stream_chat_agree_witness:
  "retrieve_context example_library fresh_engine ''how was it'' 6 = Inr []
   \<and> provider (llm fresh_engine) = ''ollama''
   \<and> get_response (reply_json ''Great workout!'') = Some ''Great workout!''
   \<and> ollama_lines example_json_loads
        (iter_lines (reply ''Great workout!'' [''T:Great'', ''T: workout'', ''T:!'', ''D'']))
        (iter_lines_error (reply ''Great workout!'' [''T:Great'', ''T: workout'', ''T:!'', ''D'']))
       = ([''Great'', '' workout'', ''!''], None)
   \<and> concat [''Great'', '' workout'', ''!''] = ''Great workout!''
   \<and> strip (concat [''Great'', '' workout'', ''!'']) = concat [''Great'', '' workout'', ''!'']
   \<and> snd (chat example_library
          (backend_replying ''Great workout!'' [''T:Great'', ''T: workout'', ''T:!'', ''D''])
          fresh_engine ''how was it'' ''s1'')
       = snd (snd (stream_chat example_library example_json_loads
          (backend_replying ''Great workout!'' [''T:Great'', ''T: workout'', ''T:!'', ''D''])
          fresh_engine ''how was it'' ''s1''))"
proof -
  let ?ls = "[''T:Great'', ''T: workout'', ''T:!'', ''D'']"
  let ?w = "backend_replying ''Great workout!'' ?ls"
  have h1: "retrieve_context example_library fresh_engine ''how was it'' 6 = Inr []"
    by (simp add: retrieve_context_def fresh_engine_def ChatEngine_init_def)
  have h2: "kb fresh_engine = None
            \<or> (\<exists>K rs. kb fresh_engine = Some K
                  \<and> query example_library K ''how was it'' 8 = Inr rs)"
    by (simp add: fresh_engine_def ChatEngine_init_def)
  have h3: "\<forall>url mdl p s t n. requests_post ?w (OllamaGenerateRequest url mdl p s False t n)
              = PostReturns (reply ''Great workout!'' ?ls)"
    by (simp add: backend_replying_def)
  have h4: "\<forall>url auth mdl msgs t n.
              requests_post ?w (ChatCompletionsRequest url auth mdl msgs t n False)
              = PostReturns (reply ''Great workout!'' ?ls)"
    by (simp add: backend_replying_def)
  have h5: "\<forall>url mdl p s t n. requests_post ?w (OllamaGenerateRequest url mdl p s True t n)
              = PostReturns (reply ''Great workout!'' ?ls)"
    by (simp add: backend_replying_def)
  have h6: "\<forall>url auth mdl msgs t n.
              requests_post ?w (ChatCompletionsRequest url auth mdl msgs t n True)
              = PostReturns (reply ''Great workout!'' ?ls)"
    by (simp add: backend_replying_def)
  have h7: "raise_for_status (reply ''Great workout!'' ?ls) = None"
    by (simp add: reply_def)
  have h8: "json (reply ''Great workout!'' ?ls) = Inr (reply_json ''Great workout!'')"
    by (simp add: reply_def)
  have p: "provider (llm fresh_engine) = ''ollama''"
    by (simp add: fresh_engine_def ChatEngine_init_def ollama_client_def)
  have g: "get_response (reply_json ''Great workout!'') = Some ''Great workout!''"
    by (simp add: reply_json_def)
  have l: "ollama_lines example_json_loads (iter_lines (reply ''Great workout!'' ?ls))
               (iter_lines_error (reply ''Great workout!'' ?ls))
             = ([''Great'', '' workout'', ''!''], None)"
    by (simp add: reply_def example_json_loads_def startswith_def)
  have h10: "(provider (llm fresh_engine) = ''ollama''
              \<and> get_response (reply_json ''Great workout!'') = Some ''Great workout!''
              \<and> ollama_lines example_json_loads (iter_lines (reply ''Great workout!'' ?ls))
                   (iter_lines_error (reply ''Great workout!'' ?ls))
                 = ([''Great'', '' workout'', ''!''], None))
         \<or> (provider (llm fresh_engine) \<noteq> ''ollama''
              \<and> message_content (reply_json ''Great workout!'') = Inr ''Great workout!''
              \<and> openai_lines example_json_loads (iter_lines (reply ''Great workout!'' ?ls))
                   (iter_lines_error (reply ''Great workout!'' ?ls))
                 = ([''Great'', '' workout'', ''!''], None))"
    using p g l by blast
  have h11: "concat [''Great'', '' workout'', ''!''] = ''Great workout!''"
    by simp
  have st: "strip (concat [''Great'', '' workout'', ''!'']) = concat [''Great'', '' workout'', ''!'']"
    by (simp add: strip_plain)
  show ?thesis
    using h1 p g l h11 st
      chat_stream_chat_agree[where sid = "''s1''", OF h1 h2 h3 h4 h5 h6 h7 h8 h7 h10 h11]
    by blast
qed

text \<open>
  C5 as stated fails when the backend's text ends in white space: \<open>generate\<close> strips the
  blocking text, the stream does not, and the two sessions receive different assistant
  messages.
\<close>

theorem chat_stream_chat_agree_counterexample:
  "fst (chat example_library
          (backend_replying ''Great workout! '' [''T:Great'', ''T: workout'', ''T:! '', ''D''])
          fresh_engine ''how was it'' ''s1'')
     = Inr \<lparr>response = ''Great workout!'', context_used = False, chunks_retrieved = 0,
            inference_ms = 250, response_model = ''llama3.2:3b'',
            response_provider = ''ollama''\<rparr>
   \<and> fst (stream_chat example_library example_json_loads
          (backend_replying ''Great workout! '' [''T:Great'', ''T: workout'', ''T:! '', ''D''])
          fresh_engine ''how was it'' ''s1'')
     = [TokenEvent ''Great'', TokenEvent '' workout'', TokenEvent ''! '',
        DoneEvent 250 ''llama3.2:3b'']
   \<and> conversations (snd (chat example_library
          (backend_replying ''Great workout! '' [''T:Great'', ''T: workout'', ''T:! '', ''D''])
          fresh_engine ''how was it'' ''s1'')) ''s1''
     = Some [\<lparr>role = ''user'', content = ''how was it''\<rparr>,
             \<lparr>role = ''assistant'', content = ''Great workout!''\<rparr>]
   \<and> conversations (snd (snd (stream_chat example_library example_json_loads
          (backend_replying ''Great workout! '' [''T:Great'', ''T: workout'', ''T:! '', ''D''])
          fresh_engine ''how was it'' ''s1''))) ''s1''
     = Some [\<lparr>role = ''user'', content = ''how was it''\<rparr>,
             \<lparr>role = ''assistant'', content = ''Great workout! ''\<rparr>]"
  by (simp add: chat_def stream_chat_def retrieve_context_def ChatEngine_init_def fresh_engine_def generate_def
      stream_def ollama_client_def ollama_generate_def ollama_stream_def backend_replying_def reply_def reply_json_def
      example_json_loads_def startswith_def example_library_def store_turn_def Let_def
      strip_trailing_space)


end
